theory Spec2Isabelle
  imports Main
begin

section \<open>gddns: a dynamic-DNS reconciler (main.go)\<close>

text \<open>
  The program is one Go file. It loads a small JSON configuration, asks an echo service
  for the public IP address and then either updates the A record it already manages or,
  on a first run, checks that no A record exists, creates an A record and an SRV record
  and writes the identifier of the A record back to the configuration file.

  Everything the program does is an interaction with the outside: the file system, the
  process environment, the clock, one HTTP GET and the DNS provider's client library.
  The model threads a world of an arbitrary type \<open>'w\<close> through these interactions and
  takes the behaviour of the outside as a parameter (a record of functions); the
  program text between the interactions is translated function by function.
\<close>

subsection \<open>Errors and the ways a function can end\<close>

text \<open>
  A Go \<open>error\<close> is read through its message only (\<open>%v\<close>, \<open>%w\<close>):
  \<open>errors.New m\<close> is \<open>Error m\<close>.
\<close>

datatype error = Error (message: string)

text \<open>
  \<open>fmt.Errorf "prefix: %w" err\<close>: the message of the wrapped error after the prefix.
\<close>

definition Errorf :: "string \<Rightarrow> error \<Rightarrow> error" where
  "Errorf prefix err = Error (prefix @ message err)"

text \<open>
  A function either returns to its caller or ends the process: \<open>log.Fatal\<close> and
  \<open>log.Fatalf\<close> log their message and exit with status 1; reading a field through a
  nil pointer panics.
\<close>

datatype abort = Fatal string | NilDereference

datatype 'a exec = Return 'a | Abort abort

subsection \<open>The data of main.go\<close>

text \<open>
  \<open>CfgFile\<close> is the persisted part of the configuration, with the JSON keys
  \<open>domain\<close>, \<open>cname\<close>, \<open>zone_id\<close> and \<open>record_id\<close>. The field \<open>Domain\<close> carries a
  prime, since HOL has a constant of that name.
\<close>

record CfgFile =
  Domain' :: string
  CNAME :: string
  ZoneID :: string
  RecordID :: string

record ConfigEnv =
  CFEmail :: string
  CFApiKey :: string
  SysIP :: string

text \<open>
  \<open>Config\<close> embeds a pointer to a \<open>CfgFile\<close>. The JSON decoder allocates it when the
  file has one of the four keys and leaves it nil otherwise, so it is an option here and
  every read through it has a branch for nil.
\<close>

record Config =
  CfgFile :: "CfgFile option"
  Env :: ConfigEnv

subsection \<open>The library types the program passes around\<close>

record API =
  APIKey :: string
  APIEmail :: string

datatype ResourceContainer = ZoneIdentifier string

record DNSRecord =
  ID :: string
  Type :: string
  Name :: string
  Content :: string

record ResultInfo =
  Count :: int

record UpdateDNSRecordParams =
  uID :: string
  uType :: string
  uName :: string
  uContent :: string
  uTTL :: int
  uComment :: "string option"
  uProxied :: "bool option"

record ListDNSRecordsParams =
  lType :: string
  lName :: string

text \<open>The values of the \<open>Data\<close> map of an SRV record: strings and integers.\<close>

datatype dataval = S string | I int

record CreateDNSRecordParams =
  cType :: string
  cName :: string
  cContent :: string
  cData :: "(string \<rightharpoonup> dataval) option"
  cTTL :: int
  cProxied :: "bool option"
  cComment :: string

text \<open>
  The body of an HTTP response is a stream: it delivers bytes and then ends, at the end
  of the data or with an error. \<open>io.ReadAll\<close> returns the bytes read and that error
  (nil at the end of the data).
\<close>

datatype Reader = Reader string "error option"

record Response =
  StatusCode :: int
  Body :: Reader

fun ReadAll :: "Reader \<Rightarrow> string \<times> error option" where
  "ReadAll (Reader bs err) = (bs, err)"

text \<open>
  The document \<open>json.MarshalIndent\<close> renders: an object is a list of keys and values
  in the order of the struct's fields, each key the field's tag. A \<open>JString\<close> holds the
  string the JSON text denotes (its bytes in UTF-8); how the text escapes it is left out.
\<close>

datatype json = JString string | JObject "(string \<times> json) list"

subsection \<open>The outside\<close>

text \<open>
  What the run asks of the outside, in the order of the run, is kept in a trace: the
  lines printed to standard output (by \<open>fmt.Println\<close>, and by \<open>fmt.Printf\<close> with a
  final newline), the HTTP GET, the three calls of the provider's client and the write of
  the configuration file (path, document and mode). What \<open>log.Fatalf\<close> logs is kept in
  the way the function ends.
\<close>

datatype event =
    Println string
  | HttpGet string
  | UpdateCall API ResourceContainer UpdateDNSRecordParams
  | ListCall API ResourceContainer ListDNSRecordsParams
  | CreateCall API ResourceContainer CreateDNSRecordParams
  | WriteFileCall string json nat

record 'w state =
  world :: 'w
  trace :: "event list"

text \<open>
  The behaviour of the outside. Reads of the file system, the environment and the
  clock depend on the world; the network calls and the file write also change it.
  \<open>os_Open\<close> gives the bytes of the file, \<open>json_Decode\<close> is the decoding of these
  bytes into a \<open>Config\<close> by \<open>encoding/json\<close>, \<open>time_Now\<close> is
  \<open>time.Now().String()\<close>. \<open>UpdateDNSRecord\<close> also returns a record, which the
  program discards.
\<close>

record 'w externals =
  godotenv_Load :: "string \<Rightarrow> 'w \<Rightarrow> error option \<times> 'w"
  os_Open :: "string \<Rightarrow> 'w \<Rightarrow> error + string"
  json_Decode :: "string \<Rightarrow> error + Config"
  os_Getenv :: "string \<Rightarrow> 'w \<Rightarrow> string"
  http_Get :: "string \<Rightarrow> 'w \<Rightarrow> (error + Response) \<times> 'w"
  cloudflare_New :: "string \<Rightarrow> string \<Rightarrow> error + API"
  time_Now :: "'w \<Rightarrow> string"
  UpdateDNSRecord ::
    "API \<Rightarrow> ResourceContainer \<Rightarrow> UpdateDNSRecordParams \<Rightarrow> 'w \<Rightarrow> error option \<times> 'w"
  ListDNSRecords ::
    "API \<Rightarrow> ResourceContainer \<Rightarrow> ListDNSRecordsParams \<Rightarrow> 'w
      \<Rightarrow> (error + DNSRecord list \<times> ResultInfo) \<times> 'w"
  CreateDNSRecord ::
    "API \<Rightarrow> ResourceContainer \<Rightarrow> CreateDNSRecordParams \<Rightarrow> 'w \<Rightarrow> (error + DNSRecord) \<times> 'w"
  os_WriteFile :: "string \<Rightarrow> json \<Rightarrow> nat \<Rightarrow> 'w \<Rightarrow> error option \<times> 'w"

text \<open>An interaction is recorded, and the world it leaves is the new world.\<close>

definition emit :: "event \<Rightarrow> 'w state \<Rightarrow> 'w state" where
  "emit e s = s\<lparr>trace := trace s @ [e]\<rparr>"

definition interact :: "event \<Rightarrow> 'w \<Rightarrow> 'w state \<Rightarrow> 'w state" where
  "interact e w s = \<lparr>world = w, trace = trace s @ [e]\<rparr>"

text \<open>The events of a run from \<open>s\<close> to \<open>s'\<close>.\<close>

definition run_events :: "'w state \<Rightarrow> 'w state \<Rightarrow> event list" where
  "run_events s s' = drop (length (trace s)) (trace s')"

fun isUpdate :: "event \<Rightarrow> bool" where
  "isUpdate (UpdateCall _ _ _) = True"
| "isUpdate _ = False"

fun isList :: "event \<Rightarrow> bool" where
  "isList (ListCall _ _ _) = True"
| "isList _ = False"

fun isCreate :: "event \<Rightarrow> bool" where
  "isCreate (CreateCall _ _ _) = True"
| "isCreate _ = False"

fun isWrite :: "event \<Rightarrow> bool" where
  "isWrite (WriteFileCall _ _ _) = True"
| "isWrite _ = False"

subsection \<open>The functions of main.go\<close>

text \<open>\<open>strings.Join\<close>: the elements, with the separator between them.\<close>

fun Join :: "string list \<Rightarrow> string \<Rightarrow> string" where
  "Join [] sep = []"
| "Join [x] sep = x"
| "Join (x # y # ys) sep = x @ sep @ Join (y # ys) sep"

text \<open>
  \<open>getPublicIP\<close> (lines 37 to 46) returns the body of the response and the error of
  reading it; the status code of the response is not looked at. The deferred close of
  the body has no part in the result.
\<close>

definition getPublicIP :: "'w externals \<Rightarrow> 'w state \<Rightarrow> (string \<times> error option) \<times> 'w state" where
  "getPublicIP X s =
     (case http_Get X ''https://api.ipify.org?format=text'' (world s) of
        (Inl err, w) \<Rightarrow>
          (('''', Some err), interact (HttpGet ''https://api.ipify.org?format=text'') w s)
      | (Inr resp, w) \<Rightarrow>
          (ReadAll (Body resp), interact (HttpGet ''https://api.ipify.org?format=text'') w s))"

text \<open>
  \<open>init\<close> (lines 183 to 196) runs before \<open>main\<close>. It chooses the data path from the variable
  \<open>setDevMode\<close>, which is set when the program is linked, and loads the environment
  file. The global \<open>dataPath\<close> it assigns is its second result here and a parameter of
  the functions that read it.
\<close>

definition init :: "'w externals \<Rightarrow> string \<Rightarrow> 'w state \<Rightarrow> (unit exec \<times> string) \<times> 'w state" where
  "init X setDevMode s =
     (let dataPath = (if setDevMode = ''false'' then ''/etc/gddns'' else ''.'');
          s1 = emit (Println (''Using data path: '' @ dataPath)) s
      in case godotenv_Load X (Join [dataPath, ''.env.example''] ''/'') (world s1) of
           (Some err, w) \<Rightarrow>
             ((Abort (Fatal (''Error loading .env.example file: '' @ message err)), dataPath),
              s1\<lparr>world := w\<rparr>)
         | (None, w) \<Rightarrow> ((Return (), dataPath), s1\<lparr>world := w\<rparr>))"

text \<open>
  \<open>loadConfigAndEnv\<close> (lines 48 to 73) returns the errors of opening and of decoding
  the file, and ends the process when a credential is missing or the address cannot be
  had. All three fields of \<open>Env\<close> are assigned before it returns.
\<close>

definition loadConfigAndEnv ::
  "'w externals \<Rightarrow> string \<Rightarrow> 'w state \<Rightarrow> (error + Config) exec \<times> 'w state" where
  "loadConfigAndEnv X filename s =
     (case os_Open X filename (world s) of
        Inl err \<Rightarrow> (Return (Inl err), s)
      | Inr file \<Rightarrow>
          (case json_Decode X file of
             Inl err \<Rightarrow> (Return (Inl err), s)
           | Inr config \<Rightarrow>
               (let key = os_Getenv X ''CF_API_KEY'' (world s);
                    email = os_Getenv X ''CF_EMAIL'' (world s)
                in if key = '''' \<or> email = ''''
                   then (Abort (Fatal
                     ''Cloudflare API credentials are not set in environment variables.''), s)
                   else
                     (case getPublicIP X s of
                        ((ip, Some err), s1) \<Rightarrow>
                          (Abort (Fatal (''Error getting public IP: '' @ message err)), s1)
                      | ((ip, None), s1) \<Rightarrow>
                          (Return (Inr (config\<lparr>Env :=
                             \<lparr>CFEmail = email, CFApiKey = key, SysIP = ip\<rparr>\<rparr>)), s1)))))"

text \<open>
  \<open>saveConfig\<close> (lines 75 to 88) copies the four fields of the embedded \<open>CfgFile\<close> into a fresh
  \<open>CfgFile\<close>, marshals it and writes the file \<open>config.json\<close> under the data path with
  mode 0600 (384). Marshalling a struct of four strings has no error; the branch of the
  source for one is the \<open>Inl\<close> case.
\<close>

text \<open>
  \<open>encoding/json\<close> writes a Go string as a JSON string coerced to valid UTF-8: it walks
  the bytes with \<open>utf8.DecodeRuneInString\<close> and writes U+FFFD (the bytes EF BF BD) for
  every byte at which no valid encoding starts. \<open>acceptRange\<close> is the table of the lead
  bytes (the length of the encoding and the range of its second byte),
  \<open>DecodeRuneInString\<close> gives the width of the encoding at the head of a string, or
  \<open>None\<close> where Go gives \<open>RuneError\<close> with width 1.
\<close>

definition acceptRange :: "nat \<Rightarrow> (nat \<times> nat \<times> nat) option" where
  "acceptRange b =
     (if 0xC2 \<le> b \<and> b \<le> 0xDF then Some (2, 0x80, 0xBF)
      else if b = 0xE0 then Some (3, 0xA0, 0xBF)
      else if 0xE1 \<le> b \<and> b \<le> 0xEC then Some (3, 0x80, 0xBF)
      else if b = 0xED then Some (3, 0x80, 0x9F)
      else if 0xEE \<le> b \<and> b \<le> 0xEF then Some (3, 0x80, 0xBF)
      else if b = 0xF0 then Some (4, 0x90, 0xBF)
      else if 0xF1 \<le> b \<and> b \<le> 0xF3 then Some (4, 0x80, 0xBF)
      else if b = 0xF4 then Some (4, 0x80, 0x8F)
      else None)"

definition between :: "nat \<Rightarrow> nat \<Rightarrow> char \<Rightarrow> bool" where
  "between lo hi c = (lo \<le> of_char c \<and> of_char c \<le> hi)"

definition DecodeRuneInString :: "string \<Rightarrow> nat option" where
  "DecodeRuneInString s =
     (case s of
        [] \<Rightarrow> None
      | s0 # rest \<Rightarrow>
          if (of_char s0 :: nat) < 0x80 then Some 1
          else
            (case acceptRange (of_char s0) of
               None \<Rightarrow> None
             | Some (sz, lo, hi) \<Rightarrow>
                 if length s < sz then None
                 else if between lo hi (s ! 1) then
                   (if sz \<le> 2 then Some 2
                    else if between 0x80 0xBF (s ! 2) then
                      (if sz \<le> 3 then Some 3
                       else if between 0x80 0xBF (s ! 3) then Some 4 else None)
                    else None)
                 else None))"

fun coerce_utf8 :: "string \<Rightarrow> string" where
  "coerce_utf8 [] = []"
| "coerce_utf8 (b # bs) =
     (case DecodeRuneInString (b # bs) of
        None \<Rightarrow> [CHR 0xEF, CHR 0xBF, CHR 0xBD] @ coerce_utf8 bs
      | Some n \<Rightarrow> take n (b # bs) @ coerce_utf8 (drop (n - 1) bs))"

definition MarshalIndent :: "CfgFile \<Rightarrow> error + json" where
  "MarshalIndent v =
     Inr (JObject [(''domain'', JString (coerce_utf8 (Domain' v))),
                   (''cname'', JString (coerce_utf8 (CNAME v))),
                   (''zone_id'', JString (coerce_utf8 (ZoneID v))),
                   (''record_id'', JString (coerce_utf8 (RecordID v)))])"

definition saveConfig ::
  "'w externals \<Rightarrow> string \<Rightarrow> Config \<Rightarrow> 'w state \<Rightarrow> error option exec \<times> 'w state" where
  "saveConfig X dataPath config s =
     (case CfgFile config of
        None \<Rightarrow> (Abort NilDereference, s)
      | Some c \<Rightarrow>
          (let cfgdata = \<lparr>Domain' = Domain' c, CNAME = CNAME c, ZoneID = ZoneID c,
                          RecordID = RecordID c\<rparr>
           in case MarshalIndent cfgdata of
                Inl err \<Rightarrow> (Return (Some err), s)
              | Inr data \<Rightarrow>
                  (let path = Join [dataPath, ''config.json''] ''/''
                   in case os_WriteFile X path data 384 (world s) of
                        (r, w) \<Rightarrow> (Return r, interact (WriteFileCall path data 384) w s))))"

text \<open>
  \<open>updateRecord\<close> (lines 90 to 108) and \<open>findRecord\<close> (lines 110 to 125). Each reads
  the fields of the configuration before it makes its call, so a nil \<open>CfgFile\<close> panics
  before anything is asked of the provider.
\<close>

definition updateRecord ::
  "'w externals \<Rightarrow> API \<Rightarrow> Config \<Rightarrow> 'w state \<Rightarrow> error option exec \<times> 'w state" where
  "updateRecord X api config s =
     (case CfgFile config of
        None \<Rightarrow> (Abort NilDereference, s)
      | Some c \<Rightarrow>
          (let recordParams = \<lparr>uID = RecordID c, uType = ''A'', uName = CNAME c,
                               uContent = SysIP (Env config), uTTL = 120,
                               uComment = Some ''Automatically set by gddns'',
                               uProxied = Some False\<rparr>
           in case UpdateDNSRecord X api (ZoneIdentifier (ZoneID c)) recordParams (world s) of
                (Some err, w) \<Rightarrow>
                  (Return (Some err),
                   interact (UpdateCall api (ZoneIdentifier (ZoneID c)) recordParams) w s)
              | (None, w) \<Rightarrow>
                  (Return None,
                   interact (UpdateCall api (ZoneIdentifier (ZoneID c)) recordParams) w s)))"

definition findRecord ::
  "'w externals \<Rightarrow> API \<Rightarrow> Config \<Rightarrow> 'w state \<Rightarrow> error option exec \<times> 'w state" where
  "findRecord X api config s =
     (case CfgFile config of
        None \<Rightarrow> (Abort NilDereference, s)
      | Some c \<Rightarrow>
          (let params = \<lparr>lType = ''A'', lName = CNAME c\<rparr>
           in case ListDNSRecords X api (ZoneIdentifier (ZoneID c)) params (world s) of
                (Inl err, w) \<Rightarrow>
                  (Return (Some err),
                   interact (ListCall api (ZoneIdentifier (ZoneID c)) params) w s)
              | (Inr (records, r), w) \<Rightarrow>
                  (if Count r \<noteq> 0
                   then (Return (Some (Error ''record already exists'')),
                         interact (ListCall api (ZoneIdentifier (ZoneID c)) params) w s)
                   else (Return None,
                         interact (ListCall api (ZoneIdentifier (ZoneID c)) params) w s))))"

text \<open>
  \<open>createRecords\<close> (lines 127 to 166) changes the configuration it is given through the pointer; here it
  returns the configuration as it leaves it. The comment of each record reads the clock
  before the call is made.
\<close>

definition createRecords ::
  "'w externals \<Rightarrow> API \<Rightarrow> Config \<Rightarrow> 'w state \<Rightarrow> (error option \<times> Config) exec \<times> 'w state" where
  "createRecords X api config s =
     (case CfgFile config of
        None \<Rightarrow> (Abort NilDereference, s)
      | Some c \<Rightarrow>
          (let cnameFull = Join [CNAME c, Domain' c] ''.'';
               paramsA = \<lparr>cType = ''A'', cName = CNAME c, cContent = SysIP (Env config),
                          cData = None, cTTL = 300, cProxied = Some False,
                          cComment = ''Automatically set by gddns at '' @ time_Now X (world s)\<rparr>
           in case CreateDNSRecord X api (ZoneIdentifier (ZoneID c)) paramsA (world s) of
                (Inl err, w1) \<Rightarrow>
                  (Return (Some err, config),
                   interact (CreateCall api (ZoneIdentifier (ZoneID c)) paramsA) w1 s)
              | (Inr record, w1) \<Rightarrow>
                  (let s1 = interact (CreateCall api (ZoneIdentifier (ZoneID c)) paramsA) w1 s;
                       paramsSRV = \<lparr>cType = ''SRV'', cName = CNAME c, cContent = '''',
                          cData = Some [''service'' \<mapsto> S ''_minecraft'', ''proto'' \<mapsto> S ''_tcp'',
                                        ''name'' \<mapsto> S cnameFull, ''priority'' \<mapsto> I 0,
                                        ''weight'' \<mapsto> I 5, ''port'' \<mapsto> I 25565,
                                        ''target'' \<mapsto> S cnameFull],
                          cTTL = 900, cProxied = Some False,
                          cComment = ''Automatically set by gddns at '' @ time_Now X w1\<rparr>
                   in case CreateDNSRecord X api (ZoneIdentifier (ZoneID c)) paramsSRV w1 of
                        (Inl err, w2) \<Rightarrow>
                          (Return (Some err, config),
                           interact (CreateCall api (ZoneIdentifier (ZoneID c)) paramsSRV) w2 s1)
                      | (Inr _, w2) \<Rightarrow>
                          (Return (None, config\<lparr>CfgFile := Some (c\<lparr>RecordID := ID record\<rparr>)\<rparr>),
                           interact (CreateCall api (ZoneIdentifier (ZoneID c)) paramsSRV) w2 s1))))"

text \<open>
  \<open>setup\<close> (lines 168 to 181; the name is a command of Isabelle, hence the suffix).
\<close>

definition setup_fn ::
  "'w externals \<Rightarrow> string \<Rightarrow> 'w state \<Rightarrow> (error + API \<times> Config) exec \<times> 'w state" where
  "setup_fn X dataPath s =
     (case loadConfigAndEnv X (Join [dataPath, ''config.json''] ''/'') s of
        (Abort a, s1) \<Rightarrow> (Abort a, s1)
      | (Return (Inl err), s1) \<Rightarrow>
          (Return (Inl (Errorf ''error loading configuration: '' err)), s1)
      | (Return (Inr config), s1) \<Rightarrow>
          (case cloudflare_New X (CFApiKey (Env config)) (CFEmail (Env config)) of
             Inl err \<Rightarrow>
               (Return (Inl (Errorf ''error initializing Cloudflare client: '' err)), s1)
           | Inr api \<Rightarrow> (Return (Inr (api, config)), s1)))"

text \<open>
  \<open>main\<close> (lines 198 to 234). Beside the way it ends, the model returns the value the variable
  \<open>config\<close> has at that moment (\<open>None\<close> while \<open>setup\<close> has not returned one), so that
  the state the process holds can be spoken about.
\<close>

definition main ::
  "'w externals \<Rightarrow> string \<Rightarrow> 'w state \<Rightarrow> (unit exec \<times> Config option) \<times> 'w state" where
  "main X dataPath s =
     (case setup_fn X dataPath s of
        (Abort a, s1) \<Rightarrow> ((Abort a, None), s1)
      | (Return (Inl err), s1) \<Rightarrow>
          ((Abort (Fatal (''Setup failed: '' @ message err)), None), s1)
      | (Return (Inr (api, config)), s1) \<Rightarrow>
          (case CfgFile config of
             None \<Rightarrow> ((Abort NilDereference, Some config), s1)
           | Some c \<Rightarrow>
               if RecordID c \<noteq> '''' then
                 (case updateRecord X api config s1 of
                    (Abort a, s2) \<Rightarrow> ((Abort a, Some config), s2)
                  | (Return (Some err), s2) \<Rightarrow>
                      ((Abort (Fatal (''Error updating DNS record: '' @ message err)),
                        Some config), s2)
                  | (Return None, s2) \<Rightarrow>
                      ((Return (), Some config),
                       emit (Println ''DNS record updated successfully.'') s2))
               else if RecordID c = '''' then
                 (case findRecord X api config
                         (emit (Println ''No DNS record ID was set...'') s1) of
                    (Abort a, s2) \<Rightarrow> ((Abort a, Some config), s2)
                  | (Return (Some err), s2) \<Rightarrow>
                      ((Abort (Fatal (''Error veryifying dns state: '' @ message err)),
                        Some config), s2)
                  | (Return None, s2) \<Rightarrow>
                      (case createRecords X api config
                              (emit (Println
                                 ''new DNS record supplied, assuming new DNS record...'') s2) of
                         (Abort a, s3) \<Rightarrow> ((Abort a, Some config), s3)
                       | (Return (Some err, config'), s3) \<Rightarrow>
                           ((Abort (Fatal (''Error creating records: '' @ message err)),
                             Some config'), s3)
                       | (Return (None, config'), s3) \<Rightarrow>
                           (case saveConfig X dataPath config'
                                   (emit (Println ''DNS record created successfully...'') s3) of
                              (Abort a, s4) \<Rightarrow> ((Abort a, Some config'), s4)
                            | (Return (Some err), s4) \<Rightarrow>
                                ((Abort (Fatal (''Error saving config: '' @ message err)),
                                  Some config'), s4)
                            | (Return None, s4) \<Rightarrow>
                                ((Return (), Some config'),
                                 emit (Println ''DNS record saved successfully.'') s4))))
               else ((Return (), Some config), s1)))"

subsection \<open>Notation for the calls the program makes\<close>

text \<open>
  Names for the arguments the functions above build, as they stand in the source: the
  zone of the configuration, the query of \<open>findRecord\<close>, the parameters of
  \<open>updateRecord\<close>, the two records of \<open>createRecords\<close> (each with the reading of the
  clock that ends its comment) and the document \<open>saveConfig\<close> writes.
\<close>

abbreviation ipURL :: string where
  "ipURL \<equiv> ''https://api.ipify.org?format=text''"

abbreviation zoneOf :: "CfgFile \<Rightarrow> ResourceContainer" where
  "zoneOf c \<equiv> ZoneIdentifier (ZoneID c)"

abbreviation listQuery :: "CfgFile \<Rightarrow> ListDNSRecordsParams" where
  "listQuery c \<equiv> \<lparr>lType = ''A'', lName = CNAME c\<rparr>"

abbreviation updateParams :: "CfgFile \<Rightarrow> Config \<Rightarrow> UpdateDNSRecordParams" where
  "updateParams c config \<equiv>
     \<lparr>uID = RecordID c, uType = ''A'', uName = CNAME c, uContent = SysIP (Env config),
      uTTL = 120, uComment = Some ''Automatically set by gddns'', uProxied = Some False\<rparr>"

abbreviation aRecord :: "CfgFile \<Rightarrow> Config \<Rightarrow> string \<Rightarrow> CreateDNSRecordParams" where
  "aRecord c config now \<equiv>
     \<lparr>cType = ''A'', cName = CNAME c, cContent = SysIP (Env config), cData = None,
      cTTL = 300, cProxied = Some False,
      cComment = ''Automatically set by gddns at '' @ now\<rparr>"

abbreviation srvRecord :: "CfgFile \<Rightarrow> string \<Rightarrow> CreateDNSRecordParams" where
  "srvRecord c now \<equiv>
     \<lparr>cType = ''SRV'', cName = CNAME c, cContent = '''',
      cData = Some [''service'' \<mapsto> S ''_minecraft'', ''proto'' \<mapsto> S ''_tcp'',
                    ''name'' \<mapsto> S (CNAME c @ ''.'' @ Domain' c), ''priority'' \<mapsto> I 0,
                    ''weight'' \<mapsto> I 5, ''port'' \<mapsto> I 25565,
                    ''target'' \<mapsto> S (CNAME c @ ''.'' @ Domain' c)],
      cTTL = 900, cProxied = Some False,
      cComment = ''Automatically set by gddns at '' @ now\<rparr>"

abbreviation document :: "CfgFile \<Rightarrow> json" where
  "document c \<equiv>
     JObject [(''domain'', JString (coerce_utf8 (Domain' c))),
              (''cname'', JString (coerce_utf8 (CNAME c))),
              (''zone_id'', JString (coerce_utf8 (ZoneID c))),
              (''record_id'', JString (coerce_utf8 (RecordID c)))]"

abbreviation trace_to_create :: "API \<Rightarrow> CfgFile \<Rightarrow> event list" where
  "trace_to_create api c \<equiv>
     [HttpGet ipURL, Println ''No DNS record ID was set...'',
      ListCall api (zoneOf c) (listQuery c),
      Println ''new DNS record supplied, assuming new DNS record...'']"

subsection \<open>A scripted outside\<close>

text \<open>
  The theorems below hold for every outside. To instantiate them, here is one that
  follows a script: the world counts the calls made so far, the configuration file
  decodes to a given configuration, both credentials are set, the echo service answers
  with a given status and the body \<open>203.0.113.7\<close>, and the provider answers a list
  query with the records of a given list that have the type and the name asked for
  (\<open>matching\<close>), an update, the create of an A record, the create of any other record
  and the file write with given results.
\<close>

definition matching :: "DNSRecord list \<Rightarrow> ListDNSRecordsParams \<Rightarrow> DNSRecord list" where
  "matching recs p = filter (\<lambda>r. Type r = lType p \<and> Name r = lName p) recs"

definition scripted ::
  "Config \<Rightarrow> int \<Rightarrow> DNSRecord list \<Rightarrow> error option \<Rightarrow> error + DNSRecord \<Rightarrow> error + DNSRecord
     \<Rightarrow> error option \<Rightarrow> nat externals" where
  "scripted cfg code recs upd crA crSRV wr =
     \<lparr>godotenv_Load = (\<lambda>path w. (None, w)),
      os_Open = (\<lambda>path w. Inr ''{}''),
      json_Decode = (\<lambda>bytes. Inr cfg),
      os_Getenv = (\<lambda>key w. if key = ''CF_API_KEY'' then ''k3y''
                            else if key = ''CF_EMAIL'' then ''ops@example.com'' else ''''),
      http_Get = (\<lambda>url w. (Inr \<lparr>StatusCode = code, Body = Reader ''203.0.113.7'' None\<rparr>, Suc w)),
      cloudflare_New = (\<lambda>key email. Inr \<lparr>APIKey = key, APIEmail = email\<rparr>),
      time_Now = (\<lambda>w. ''tick '' @ replicate w CHR ''i''),
      UpdateDNSRecord = (\<lambda>api z p w. (upd, Suc w)),
      ListDNSRecords = (\<lambda>api z p w.
         (Inr (matching recs p, \<lparr>Count = int (length (matching recs p))\<rparr>), Suc w)),
      CreateDNSRecord = (\<lambda>api z p w. (if cType p = ''A'' then crA else crSRV, Suc w)),
      os_WriteFile = (\<lambda>path d mode w. (wr, Suc w))\<rparr>"

definition example_file :: "string \<Rightarrow> CfgFile" where
  "example_file rid = \<lparr>Domain' = ''example.com'', CNAME = ''home'', ZoneID = ''z1'', RecordID = rid\<rparr>"

definition decoded :: "CfgFile \<Rightarrow> Config" where
  "decoded cf = \<lparr>CfgFile = Some cf, Env = \<lparr>CFEmail = '''', CFApiKey = '''', SysIP = ''''\<rparr>\<rparr>"

definition loaded :: "CfgFile \<Rightarrow> Config" where
  "loaded cf = \<lparr>CfgFile = Some cf,
               Env = \<lparr>CFEmail = ''ops@example.com'', CFApiKey = ''k3y'', SysIP = ''203.0.113.7''\<rparr>\<rparr>"

definition start :: "nat state" where
  "start = \<lparr>world = 0, trace = []\<rparr>"

definition client :: API where
  "client = \<lparr>APIKey = ''k3y'', APIEmail = ''ops@example.com''\<rparr>"

text \<open>
  Two records of the provider and seven scripts: a run that finds its record identifier,
  a first run, a first run against a zone that has an A record of the name, a first run
  whose SRV create is refused, a first run against a zone that has an SRV record of the
  name and no A record, a first run whose A create is refused, and a first run that
  cannot write its configuration file.
\<close>

definition a_record :: DNSRecord where
  "a_record = \<lparr>ID = ''a1'', Type = ''A'', Name = ''home'', Content = ''203.0.113.7''\<rparr>"

definition srv_record :: DNSRecord where
  "srv_record = \<lparr>ID = ''s1'', Type = ''SRV'', Name = ''home'', Content = ''''\<rparr>"

definition managed_outside :: "nat externals" where
  "managed_outside =
     scripted (decoded (example_file ''rec123'')) 200 [] None (Inr a_record) (Inr srv_record) None"

definition first_run_outside :: "nat externals" where
  "first_run_outside =
     scripted (decoded (example_file '''')) 200 [] None (Inr a_record) (Inr srv_record) None"

definition conflict_outside :: "nat externals" where
  "conflict_outside =
     scripted (decoded (example_file '''')) 200 [a_record] None (Inr a_record) (Inr srv_record) None"

definition SRV_fails_outside :: "nat externals" where
  "SRV_fails_outside =
     scripted (decoded (example_file '''')) 200 [] None (Inr a_record)
       (Inl (Error ''quota exceeded'')) None"

definition SRV_exists_outside :: "nat externals" where
  "SRV_exists_outside =
     scripted (decoded (example_file '''')) 200 [srv_record] None (Inr a_record) (Inr srv_record) None"

definition A_fails_outside :: "nat externals" where
  "A_fails_outside =
     scripted (decoded (example_file '''')) 200 [] None (Inl (Error ''zone locked''))
       (Inr srv_record) None"


text \<open>
  A first run whose A create returns an identifier with the byte FF, which starts no
  UTF-8 encoding.
\<close>

definition odd_record :: DNSRecord where
  "odd_record = \<lparr>ID = [CHR ''a'', CHR 0xFF, CHR ''1''], Type = ''A'', Name = ''home'',
                 Content = ''203.0.113.7''\<rparr>"

definition odd_id_outside :: "nat externals" where
  "odd_id_outside =
     scripted (decoded (example_file '''')) 200 [] None (Inr odd_record) (Inr srv_record) None"

section \<open>Properties\<close>

subsection \<open>The coercion to valid UTF-8\<close>

lemma coerce_utf8_ascii:
  "\<forall>b \<in> set s. (of_char b :: nat) < 0x80 \<Longrightarrow> coerce_utf8 s = s"
  by (induction s) (simp_all add: DecodeRuneInString_def)

lemma coerce_utf8_examples:
  "coerce_utf8 ''example.com'' = ''example.com''"
  "coerce_utf8 ''home'' = ''home''"
  "coerce_utf8 ''z1'' = ''z1''"
  "coerce_utf8 ''a1'' = ''a1''"
  by (rule coerce_utf8_ascii, simp)+

lemma coerce_utf8_odd:
  "coerce_utf8 [CHR ''a'', CHR 0xFF, CHR ''1''] = [CHR ''a'', CHR 0xEF, CHR 0xBF, CHR 0xBD, CHR ''1'']"
  by (simp add: DecodeRuneInString_def acceptRange_def)


subsection \<open>The trace of a successful setup\<close>

lemma getPublicIP_trace:
  "trace (snd (getPublicIP X s)) = trace s @ [HttpGet ''https://api.ipify.org?format=text'']"
  by (simp add: getPublicIP_def interact_def split: prod.splits sum.splits)

lemma loadConfigAndEnv_ok_trace:
  "loadConfigAndEnv X f s = (Return (Inr config), s1) \<Longrightarrow>
   trace s1 = trace s @ [HttpGet ''https://api.ipify.org?format=text'']"
  using getPublicIP_trace [of X s]
  by (auto simp: loadConfigAndEnv_def Let_def split: sum.splits if_splits prod.splits option.splits)

lemma setup_ok_trace:
  "setup_fn X dataPath s = (Return (Inr (api, config)), s1) \<Longrightarrow>
   trace s1 = trace s @ [HttpGet ''https://api.ipify.org?format=text'']"
  by (auto simp: setup_fn_def split: prod.splits exec.splits sum.splits dest: loadConfigAndEnv_ok_trace)

subsection \<open>One call at a time\<close>

lemma world_emit [simp]: "world (emit e s) = world s"
  by (simp add: emit_def)

lemma trace_emit [simp]: "trace (emit e s) = trace s @ [e]"
  by (simp add: emit_def)

lemma world_interact [simp]: "world (interact e w s) = w"
  by (simp add: interact_def)

lemma trace_interact [simp]: "trace (interact e w s) = trace s @ [e]"
  by (simp add: interact_def)

lemma findRecord_answer:
  assumes "CfgFile config = Some c"
    and "ListDNSRecords X api (zoneOf c) (listQuery c) (world s) = (Inr (records, r), w)"
  shows "findRecord X api config s =
           (Return (if Count r \<noteq> 0 then Some (Error ''record already exists'') else None),
            interact (ListCall api (zoneOf c) (listQuery c)) w s)"
  using assms by (simp add: findRecord_def Let_def)

lemma createRecords_A_fails:
  assumes "CfgFile config = Some c"
    and "CreateDNSRecord X api (zoneOf c) (aRecord c config (time_Now X (world s))) (world s)
           = (Inl err, w1)"
  shows "createRecords X api config s =
           (Return (Some err, config),
            interact (CreateCall api (zoneOf c) (aRecord c config (time_Now X (world s)))) w1 s)"
  using assms by (simp add: createRecords_def Let_def)

lemma createRecords_SRV_answer:
  assumes "CfgFile config = Some c"
    and "CreateDNSRecord X api (zoneOf c) (aRecord c config (time_Now X (world s))) (world s)
           = (Inr recA, w1)"
    and "CreateDNSRecord X api (zoneOf c) (srvRecord c (time_Now X w1)) w1 = (rs, w2)"
  shows "createRecords X api config s =
           (Return (case rs of Inl err \<Rightarrow> (Some err, config)
                    | Inr _ \<Rightarrow> (None, config\<lparr>CfgFile := Some (c\<lparr>RecordID := ID recA\<rparr>)\<rparr>)),
            interact (CreateCall api (zoneOf c) (srvRecord c (time_Now X w1))) w2
              (interact (CreateCall api (zoneOf c) (aRecord c config (time_Now X (world s)))) w1 s))"
  using assms by (simp add: createRecords_def Let_def split: sum.splits)

lemma saveConfig_answer:
  assumes "CfgFile config = Some c"
    and "os_WriteFile X (dataPath @ ''/config.json'') (document c) 384 (world s) = (r, w)"
  shows "saveConfig X dataPath config s =
           (Return r, interact (WriteFileCall (dataPath @ ''/config.json'') (document c) 384) w s)"
  using assms by (simp add: saveConfig_def MarshalIndent_def Let_def)

subsection \<open>Whole runs\<close>

text \<open>
  What \<open>main\<close> returns and the trace it leaves, for each way a run can go once
  \<open>setup\<close> has returned a configuration: the update, the failure of the list call, the
  conflict, the failure of either create, and the save.
\<close>

lemma main_managed:
  assumes "setup_fn X dataPath s = (Return (Inr (api, config)), s1)"
    and "CfgFile config = Some c" and "RecordID c \<noteq> ''''"
    and "UpdateDNSRecord X api (zoneOf c) (updateParams c config) (world s1) = (ru, w)"
  shows "main X dataPath s =
           (((case ru of None \<Rightarrow> Return ()
              | Some err \<Rightarrow> Abort (Fatal (''Error updating DNS record: '' @ message err))),
             Some config),
            \<lparr>world = w,
             trace = trace s @ [HttpGet ipURL, UpdateCall api (zoneOf c) (updateParams c config)]
                       @ (case ru of None \<Rightarrow> [Println ''DNS record updated successfully.'']
                          | Some err \<Rightarrow> [])\<rparr>)"
  using assms setup_ok_trace [OF assms(1)]
  by (cases ru) (simp_all add: main_def updateRecord_def Let_def interact_def emit_def)

lemma main_unmanaged:
  assumes "setup_fn X dataPath s = (Return (Inr (api, config)), s1)"
    and "CfgFile config = Some c" and "RecordID c = ''''"
    and "ListDNSRecords X api (zoneOf c) (listQuery c) (world s1) = (Inr (records, r), w)"
  shows "main X dataPath s =
    (if Count r \<noteq> 0
     then ((Abort (Fatal ''Error veryifying dns state: record already exists''), Some config),
           interact (ListCall api (zoneOf c) (listQuery c)) w
             (emit (Println ''No DNS record ID was set...'') s1))
     else
       (case createRecords X api config
               (emit (Println ''new DNS record supplied, assuming new DNS record...'')
                  (interact (ListCall api (zoneOf c) (listQuery c)) w
                     (emit (Println ''No DNS record ID was set...'') s1))) of
          (Abort a, s3) \<Rightarrow> ((Abort a, Some config), s3)
        | (Return (Some err, config'), s3) \<Rightarrow>
            ((Abort (Fatal (''Error creating records: '' @ message err)), Some config'), s3)
        | (Return (None, config'), s3) \<Rightarrow>
            (case saveConfig X dataPath config'
                    (emit (Println ''DNS record created successfully...'') s3) of
               (Abort a, s4) \<Rightarrow> ((Abort a, Some config'), s4)
             | (Return (Some err), s4) \<Rightarrow>
                 ((Abort (Fatal (''Error saving config: '' @ message err)), Some config'), s4)
             | (Return None, s4) \<Rightarrow>
                 ((Return (), Some config'),
                  emit (Println ''DNS record saved successfully.'') s4))))"
  using assms by (simp add: main_def findRecord_answer [where s = "emit e s1" for e, simplified])

lemma main_list_fails:
  assumes "setup_fn X dataPath s = (Return (Inr (api, config)), s1)"
    and "CfgFile config = Some c" and "RecordID c = ''''"
    and "ListDNSRecords X api (zoneOf c) (listQuery c) (world s1) = (Inl err, w)"
  shows "main X dataPath s =
           ((Abort (Fatal (''Error veryifying dns state: '' @ message err)), Some config),
            \<lparr>world = w,
             trace = trace s @ [HttpGet ipURL, Println ''No DNS record ID was set...'',
                                ListCall api (zoneOf c) (listQuery c)]\<rparr>)"
  using assms setup_ok_trace [OF assms(1)]
  by (simp add: main_def findRecord_def Let_def interact_def)

lemma main_conflict:
  assumes "setup_fn X dataPath s = (Return (Inr (api, config)), s1)"
    and "CfgFile config = Some c" and "RecordID c = ''''"
    and "ListDNSRecords X api (zoneOf c) (listQuery c) (world s1) = (Inr (records, r), w)"
    and "Count r \<noteq> 0"
  shows "main X dataPath s =
           ((Abort (Fatal ''Error veryifying dns state: record already exists''), Some config),
            \<lparr>world = w,
             trace = trace s @ [HttpGet ipURL, Println ''No DNS record ID was set...'',
                                ListCall api (zoneOf c) (listQuery c)]\<rparr>)"
  using main_unmanaged [OF assms(1-4)] assms(5) setup_ok_trace [OF assms(1)]
  by (simp add: interact_def)

lemma main_A_fails:
  assumes "setup_fn X dataPath s = (Return (Inr (api, config)), s1)"
    and "CfgFile config = Some c" and "RecordID c = ''''"
    and "ListDNSRecords X api (zoneOf c) (listQuery c) (world s1) = (Inr (records, r), w)"
    and "Count r = 0"
    and "CreateDNSRecord X api (zoneOf c) (aRecord c config (time_Now X w)) w = (Inl err, w1)"
  shows "main X dataPath s =
           ((Abort (Fatal (''Error creating records: '' @ message err)), Some config),
            \<lparr>world = w1,
             trace = trace s @ trace_to_create api c
                       @ [CreateCall api (zoneOf c) (aRecord c config (time_Now X w))]\<rparr>)"
proof -
  let ?s2 = "emit (Println ''new DNS record supplied, assuming new DNS record...'')
               (interact (ListCall api (zoneOf c) (listQuery c)) w
                  (emit (Println ''No DNS record ID was set...'') s1))"
  have "createRecords X api config ?s2 =
          (Return (Some err, config),
           interact (CreateCall api (zoneOf c) (aRecord c config (time_Now X w))) w1 ?s2)"
    using createRecords_A_fails [of config c X api ?s2 err w1] assms(2,6) by simp
  with main_unmanaged [OF assms(1-4)] assms(5) setup_ok_trace [OF assms(1)]
  show ?thesis
    by (simp add: interact_def)
qed

lemma main_SRV_fails:
  assumes "setup_fn X dataPath s = (Return (Inr (api, config)), s1)"
    and "CfgFile config = Some c" and "RecordID c = ''''"
    and "ListDNSRecords X api (zoneOf c) (listQuery c) (world s1) = (Inr (records, r), w)"
    and "Count r = 0"
    and "CreateDNSRecord X api (zoneOf c) (aRecord c config (time_Now X w)) w = (Inr recA, w1)"
    and "CreateDNSRecord X api (zoneOf c) (srvRecord c (time_Now X w1)) w1 = (Inl err, w2)"
  shows "main X dataPath s =
           ((Abort (Fatal (''Error creating records: '' @ message err)), Some config),
            \<lparr>world = w2,
             trace = trace s @ trace_to_create api c
                       @ [CreateCall api (zoneOf c) (aRecord c config (time_Now X w)),
                          CreateCall api (zoneOf c) (srvRecord c (time_Now X w1))]\<rparr>)"
proof -
  let ?s2 = "emit (Println ''new DNS record supplied, assuming new DNS record...'')
               (interact (ListCall api (zoneOf c) (listQuery c)) w
                  (emit (Println ''No DNS record ID was set...'') s1))"
  have "createRecords X api config ?s2 =
          (Return (Some err, config),
           interact (CreateCall api (zoneOf c) (srvRecord c (time_Now X w1))) w2
             (interact (CreateCall api (zoneOf c) (aRecord c config (time_Now X w))) w1 ?s2))"
    using createRecords_SRV_answer [of config c X api ?s2 recA w1 "Inl err" w2] assms(2,6,7)
    by simp
  with main_unmanaged [OF assms(1-4)] assms(5) setup_ok_trace [OF assms(1)]
  show ?thesis
    by (simp add: interact_def)
qed

lemma main_created:
  assumes "setup_fn X dataPath s = (Return (Inr (api, config)), s1)"
    and "CfgFile config = Some c" and "RecordID c = ''''"
    and "ListDNSRecords X api (zoneOf c) (listQuery c) (world s1) = (Inr (records, r), w)"
    and "Count r = 0"
    and "CreateDNSRecord X api (zoneOf c) (aRecord c config (time_Now X w)) w = (Inr recA, w1)"
    and "CreateDNSRecord X api (zoneOf c) (srvRecord c (time_Now X w1)) w1 = (Inr recS, w2)"
    and "os_WriteFile X (dataPath @ ''/config.json'') (document (c\<lparr>RecordID := ID recA\<rparr>))
           384 w2 = (rw, w3)"
  shows "main X dataPath s =
           (((case rw of None \<Rightarrow> Return ()
              | Some err \<Rightarrow> Abort (Fatal (''Error saving config: '' @ message err))),
             Some (config\<lparr>CfgFile := Some (c\<lparr>RecordID := ID recA\<rparr>)\<rparr>)),
            \<lparr>world = w3,
             trace = trace s @ trace_to_create api c
                       @ [CreateCall api (zoneOf c) (aRecord c config (time_Now X w)),
                          CreateCall api (zoneOf c) (srvRecord c (time_Now X w1)),
                          Println ''DNS record created successfully...'',
                          WriteFileCall (dataPath @ ''/config.json'')
                            (document (c\<lparr>RecordID := ID recA\<rparr>)) 384]
                       @ (case rw of None \<Rightarrow> [Println ''DNS record saved successfully.'']
                          | Some err \<Rightarrow> [])\<rparr>)"
proof -
  let ?s2 = "emit (Println ''new DNS record supplied, assuming new DNS record...'')
               (interact (ListCall api (zoneOf c) (listQuery c)) w
                  (emit (Println ''No DNS record ID was set...'') s1))"
  let ?s3 = "interact (CreateCall api (zoneOf c) (srvRecord c (time_Now X w1))) w2
               (interact (CreateCall api (zoneOf c) (aRecord c config (time_Now X w))) w1 ?s2)"
  let ?config' = "config\<lparr>CfgFile := Some (c\<lparr>RecordID := ID recA\<rparr>)\<rparr>"
  let ?s4 = "emit (Println ''DNS record created successfully...'') ?s3"
  have created: "createRecords X api config ?s2 = (Return (None, ?config'), ?s3)"
    using createRecords_SRV_answer [of config c X api ?s2 recA w1 "Inr recS" w2]
      assms(2,6,7)
    by simp
  have saved: "saveConfig X dataPath ?config' ?s4 =
          (Return rw,
           interact (WriteFileCall (dataPath @ ''/config.json'')
                       (document (c\<lparr>RecordID := ID recA\<rparr>)) 384) w3 ?s4)"
    using saveConfig_answer [of ?config' "c\<lparr>RecordID := ID recA\<rparr>" X dataPath ?s4 rw w3]
      assms(8)
    by simp
  from main_unmanaged [OF assms(1-4)] assms(5) setup_ok_trace [OF assms(1)] created saved
  show ?thesis
    by (cases rw) (simp_all add: interact_def emit_def)
qed

lemma main_no_conflict_events:
  assumes "setup_fn X dataPath s = (Return (Inr (api, config)), s1)"
    and "CfgFile config = Some c" and "RecordID c = ''''"
    and "ListDNSRecords X api (zoneOf c) (listQuery c) (world s1) = (Inr (records, r), w)"
    and "Count r = 0"
  shows "\<exists>rest. run_events s (snd (main X dataPath s)) =
                  trace_to_create api c
                    @ CreateCall api (zoneOf c) (aRecord c config (time_Now X w)) # rest
               \<and> filter isList rest = []"
proof -
  obtain ra w1 where A:
    "CreateDNSRecord X api (zoneOf c) (aRecord c config (time_Now X w)) w = (ra, w1)"
    by fastforce
  show ?thesis
  proof (cases ra)
    case (Inl err)
    from main_A_fails [OF assms A [unfolded Inl]] show ?thesis
      by (simp add: run_events_def)
  next
    case recA: (Inr recA)
    obtain rs w2 where SRV:
      "CreateDNSRecord X api (zoneOf c) (srvRecord c (time_Now X w1)) w1 = (rs, w2)"
      by fastforce
    show ?thesis
    proof (cases rs)
      case (Inl err)
      from main_SRV_fails [OF assms A [unfolded recA] SRV [unfolded Inl]] show ?thesis
        by (simp add: run_events_def)
    next
      case recS: (Inr recS)
      obtain rw w3 where W:
        "os_WriteFile X (dataPath @ ''/config.json'') (document (c\<lparr>RecordID := ID recA\<rparr>))
           384 w2 = (rw, w3)"
        by fastforce
      from main_created [OF assms A [unfolded recA] SRV [unfolded recS] W] show ?thesis
        by (cases rw) (simp_all add: run_events_def)
    qed
  qed
qed

subsection \<open>The scripted outside, evaluated\<close>

lemma scripted_setup:
  "setup_fn (scripted (decoded cf) code recs upd crA crSRV wr) dataPath start =
     (Return (Inr (client, loaded cf)),
      \<lparr>world = 1, trace = [HttpGet ''https://api.ipify.org?format=text'']\<rparr>)"
  by (simp add: setup_fn_def loadConfigAndEnv_def getPublicIP_def scripted_def decoded_def
      loaded_def start_def client_def interact_def)

lemma scripted_list:
  "ListDNSRecords (scripted cfg code recs upd crA crSRV wr) api z q w =
     (Inr (matching recs q, \<lparr>Count = int (length (matching recs q))\<rparr>), Suc w)"
  by (simp add: scripted_def)

lemma scripted_create_A:
  "cType p = ''A'' \<Longrightarrow>
   CreateDNSRecord (scripted cfg code recs upd crA crSRV wr) api z p w = (crA, Suc w)"
  by (simp add: scripted_def)

lemma scripted_create_SRV:
  "cType p = ''SRV'' \<Longrightarrow>
   CreateDNSRecord (scripted cfg code recs upd crA crSRV wr) api z p w = (crSRV, Suc w)"
  by (simp add: scripted_def)

lemma scripted_now:
  "time_Now (scripted cfg code recs upd crA crSRV wr) w = ''tick '' @ replicate w CHR ''i''"
  by (simp add: scripted_def)

lemma scripted_write:
  "os_WriteFile (scripted cfg code recs upd crA crSRV wr) path d mode w = (wr, Suc w)"
  by (simp add: scripted_def)

lemma loaded_cfg: "CfgFile (loaded cf) = Some cf"
  by (simp add: loaded_def)

lemma managed_setup:
  "setup_fn managed_outside ''.'' start =
     (Return (Inr (client, loaded (example_file ''rec123''))),
      \<lparr>world = 1, trace = [HttpGet ipURL]\<rparr>)"
  unfolding managed_outside_def by (rule scripted_setup)

lemma example_managed: "RecordID (example_file ''rec123'') \<noteq> ''''"
  by (simp add: example_file_def)

lemma first_run_setup:
  "setup_fn first_run_outside ''.'' start =
     (Return (Inr (client, loaded (example_file ''''))), \<lparr>world = 1, trace = [HttpGet ipURL]\<rparr>)"
  unfolding first_run_outside_def by (rule scripted_setup)

lemma example_unmanaged: "RecordID (example_file '''') = ''''"
  by (simp add: example_file_def)

lemma first_run_list:
  "ListDNSRecords first_run_outside client (zoneOf (example_file ''''))
     (listQuery (example_file '''')) (world \<lparr>world = 1, trace = [HttpGet ipURL]\<rparr>)
    = (Inr ([], \<lparr>Count = 0\<rparr>), 2)"
  by (simp add: first_run_outside_def scripted_list matching_def)

lemma first_run_A:
  "CreateDNSRecord first_run_outside client (zoneOf (example_file ''''))
     (aRecord (example_file '''') (loaded (example_file '''')) (time_Now first_run_outside 2)) 2
    = (Inr a_record, 3)"
  by (simp add: first_run_outside_def scripted_create_A)

lemma first_run_SRV:
  "CreateDNSRecord first_run_outside client (zoneOf (example_file ''''))
     (srvRecord (example_file '''') (time_Now first_run_outside 3)) 3
    = (Inr srv_record, 4)"
  by (simp add: first_run_outside_def scripted_create_SRV)

subsection \<open>The managed run\<close>

text \<open>
  Claim C1. When the loaded configuration has a non-empty \<open>RecordID\<close>, the run issues
  exactly one update call, for the A record, with TTL 120 and proxied false; it issues no
  create call and no list call and does not write the configuration file.
\<close>

theorem managed_run_issues_one_update:
  assumes "setup_fn X dataPath s = (Return (Inr (api, config)), s1)"
    and "CfgFile config = Some c" and "RecordID c \<noteq> ''''"
  shows "filter isUpdate (run_events s (snd (main X dataPath s))) =
           [UpdateCall api (ZoneIdentifier (ZoneID c))
              \<lparr>uID = RecordID c, uType = ''A'', uName = CNAME c, uContent = SysIP (Env config),
               uTTL = 120, uComment = Some ''Automatically set by gddns'',
               uProxied = Some False\<rparr>]
       \<and> filter isCreate (run_events s (snd (main X dataPath s))) = []
       \<and> filter isList (run_events s (snd (main X dataPath s))) = []
       \<and> filter isWrite (run_events s (snd (main X dataPath s))) = []"
proof -
  obtain ru w where U:
    "UpdateDNSRecord X api (zoneOf c) (updateParams c config) (world s1) = (ru, w)"
    by fastforce
  from main_managed [OF assms U] show ?thesis
    by (cases ru) (simp_all add: run_events_def)
qed

theorem managed_run_issues_one_update_witness:
  "setup_fn managed_outside ''.'' start =
     (Return (Inr (client, loaded (example_file ''rec123''))),
      \<lparr>world = 1, trace = [HttpGet ipURL]\<rparr>)
   \<and> CfgFile (loaded (example_file ''rec123'')) = Some (example_file ''rec123'')
   \<and> RecordID (example_file ''rec123'') \<noteq> ''''
   \<and> filter isUpdate (run_events start (snd (main managed_outside ''.'' start))) =
       [UpdateCall client (ZoneIdentifier ''z1'')
          \<lparr>uID = ''rec123'', uType = ''A'', uName = ''home'', uContent = ''203.0.113.7'',
           uTTL = 120, uComment = Some ''Automatically set by gddns'', uProxied = Some False\<rparr>]
   \<and> filter isCreate (run_events start (snd (main managed_outside ''.'' start))) = []
   \<and> filter isList (run_events start (snd (main managed_outside ''.'' start))) = []
   \<and> filter isWrite (run_events start (snd (main managed_outside ''.'' start))) = []"
proof -
  from managed_run_issues_one_update [OF managed_setup loaded_cfg example_managed]
  have "filter isUpdate (run_events start (snd (main managed_outside ''.'' start))) =
       [UpdateCall client (ZoneIdentifier ''z1'')
          \<lparr>uID = ''rec123'', uType = ''A'', uName = ''home'', uContent = ''203.0.113.7'',
           uTTL = 120, uComment = Some ''Automatically set by gddns'', uProxied = Some False\<rparr>]
   \<and> filter isCreate (run_events start (snd (main managed_outside ''.'' start))) = []
   \<and> filter isList (run_events start (snd (main managed_outside ''.'' start))) = []
   \<and> filter isWrite (run_events start (snd (main managed_outside ''.'' start))) = []"
    by (simp add: example_file_def loaded_def)
  with managed_setup loaded_cfg example_managed show ?thesis
    by blast
qed

subsection \<open>The first run\<close>

text \<open>
  Claim C2. When the loaded configuration has an empty \<open>RecordID\<close> and the list call
  reports no match, the run issues the create of the A record and, only if that create
  succeeded, the create of the SRV record after it; it issues no other create.
\<close>

theorem unmanaged_no_conflict_creates_A_then_SRV:
  assumes "setup_fn X dataPath s = (Return (Inr (api, config)), s1)"
    and "CfgFile config = Some c" and "RecordID c = ''''"
    and "ListDNSRecords X api (ZoneIdentifier (ZoneID c)) \<lparr>lType = ''A'', lName = CNAME c\<rparr>
           (world s1) = (Inr (records, r), w)"
    and "Count r = 0"
  shows "filter isCreate (run_events s (snd (main X dataPath s))) =
     (let zone = ZoneIdentifier (ZoneID c);
          paramsA = \<lparr>cType = ''A'', cName = CNAME c, cContent = SysIP (Env config),
                     cData = None, cTTL = 300, cProxied = Some False,
                     cComment = ''Automatically set by gddns at '' @ time_Now X w\<rparr>
      in case CreateDNSRecord X api zone paramsA w of
           (Inl err, w1) \<Rightarrow> [CreateCall api zone paramsA]
         | (Inr recA, w1) \<Rightarrow>
             [CreateCall api zone paramsA,
              CreateCall api zone
                \<lparr>cType = ''SRV'', cName = CNAME c, cContent = '''',
                 cData = Some [''service'' \<mapsto> S ''_minecraft'', ''proto'' \<mapsto> S ''_tcp'',
                               ''name'' \<mapsto> S (CNAME c @ ''.'' @ Domain' c), ''priority'' \<mapsto> I 0,
                               ''weight'' \<mapsto> I 5, ''port'' \<mapsto> I 25565,
                               ''target'' \<mapsto> S (CNAME c @ ''.'' @ Domain' c)],
                 cTTL = 900, cProxied = Some False,
                 cComment = ''Automatically set by gddns at '' @ time_Now X w1\<rparr>])"
proof -
  obtain ra w1 where A:
    "CreateDNSRecord X api (zoneOf c) (aRecord c config (time_Now X w)) w = (ra, w1)"
    by fastforce
  show ?thesis
  proof (cases ra)
    case (Inl err)
    from main_A_fails [OF assms A [unfolded Inl]] A Inl show ?thesis
      by (simp add: run_events_def Let_def)
  next
    case (Inr recA)
    obtain rs w2 where SRV:
      "CreateDNSRecord X api (zoneOf c) (srvRecord c (time_Now X w1)) w1 = (rs, w2)"
      by fastforce
    show ?thesis
    proof (cases rs)
      case (Inl err)
      from main_SRV_fails [OF assms A [unfolded Inr] SRV [unfolded Inl]] A Inr show ?thesis
        by (simp add: run_events_def Let_def)
    next
      case recS: (Inr recS)
      obtain rw w3 where W:
        "os_WriteFile X (dataPath @ ''/config.json'') (document (c\<lparr>RecordID := ID recA\<rparr>))
           384 w2 = (rw, w3)"
        by fastforce
      from main_created [OF assms A [unfolded Inr] SRV [unfolded recS] W] A Inr show ?thesis
        by (cases rw) (simp_all add: run_events_def Let_def)
    qed
  qed
qed

theorem unmanaged_no_conflict_creates_A_then_SRV_witness:
  "setup_fn first_run_outside ''.'' start =
     (Return (Inr (client, loaded (example_file ''''))), \<lparr>world = 1, trace = [HttpGet ipURL]\<rparr>)
   \<and> setup_fn A_fails_outside ''.'' start =
     (Return (Inr (client, loaded (example_file ''''))), \<lparr>world = 1, trace = [HttpGet ipURL]\<rparr>)
   \<and> CfgFile (loaded (example_file '''')) = Some (example_file '''')
   \<and> RecordID (example_file '''') = ''''
   \<and> ListDNSRecords first_run_outside client (zoneOf (example_file ''''))
        (listQuery (example_file '''')) (world \<lparr>world = 1, trace = [HttpGet ipURL]\<rparr>)
       = (Inr ([], \<lparr>Count = 0\<rparr>), 2)
   \<and> ListDNSRecords A_fails_outside client (zoneOf (example_file ''''))
        (listQuery (example_file '''')) (world \<lparr>world = 1, trace = [HttpGet ipURL]\<rparr>)
       = (Inr ([], \<lparr>Count = 0\<rparr>), 2)
   \<and> Count \<lparr>Count = 0\<rparr> = 0
   \<and> filter isCreate (run_events start (snd (main first_run_outside ''.'' start))) =
       [CreateCall client (ZoneIdentifier ''z1'')
          (aRecord (example_file '''') (loaded (example_file '''')) ''tick ii''),
        CreateCall client (ZoneIdentifier ''z1'') (srvRecord (example_file '''') ''tick iii'')]
   \<and> filter isCreate (run_events start (snd (main A_fails_outside ''.'' start))) =
       [CreateCall client (ZoneIdentifier ''z1'')
          (aRecord (example_file '''') (loaded (example_file '''')) ''tick ii'')]"
proof -
  have boot: "setup_fn A_fails_outside ''.'' start =
     (Return (Inr (client, loaded (example_file ''''))), \<lparr>world = 1, trace = [HttpGet ipURL]\<rparr>)"
    unfolding A_fails_outside_def by (rule scripted_setup)
  have list: "ListDNSRecords A_fails_outside client (zoneOf (example_file ''''))
        (listQuery (example_file '''')) (world \<lparr>world = 1, trace = [HttpGet ipURL]\<rparr>)
       = (Inr ([], \<lparr>Count = 0\<rparr>), 2)"
    by (simp add: A_fails_outside_def scripted_list matching_def)
  have none: "Count \<lparr>Count = 0\<rparr> = 0"
    by simp
  from unmanaged_no_conflict_creates_A_then_SRV
    [OF first_run_setup loaded_cfg example_unmanaged first_run_list none]
  have both: "filter isCreate (run_events start (snd (main first_run_outside ''.'' start))) =
       [CreateCall client (ZoneIdentifier ''z1'')
          (aRecord (example_file '''') (loaded (example_file '''')) ''tick ii''),
        CreateCall client (ZoneIdentifier ''z1'') (srvRecord (example_file '''') ''tick iii'')]"
    by (simp add: first_run_outside_def scripted_create_A scripted_create_SRV scripted_now
        example_file_def numeral_2_eq_2 numeral_3_eq_3 Let_def)
  from unmanaged_no_conflict_creates_A_then_SRV
    [OF boot loaded_cfg example_unmanaged list none]
  have one: "filter isCreate (run_events start (snd (main A_fails_outside ''.'' start))) =
       [CreateCall client (ZoneIdentifier ''z1'')
          (aRecord (example_file '''') (loaded (example_file '''')) ''tick ii'')]"
    by (simp add: A_fails_outside_def scripted_create_A scripted_now
        example_file_def numeral_2_eq_2 Let_def)
  from both one first_run_setup boot loaded_cfg example_unmanaged first_run_list list none
  show ?thesis
    by blast
qed

text \<open>
  Claim C3. When the loaded configuration has an empty \<open>RecordID\<close> and the list call
  reports a count other than zero, the run issues no create call, does not write the
  configuration file and ends in \<open>log.Fatalf\<close> with the error
  \<open>record already exists\<close>.
\<close>

theorem unmanaged_conflict_aborts:
  assumes "setup_fn X dataPath s = (Return (Inr (api, config)), s1)"
    and "CfgFile config = Some c" and "RecordID c = ''''"
    and "ListDNSRecords X api (ZoneIdentifier (ZoneID c)) \<lparr>lType = ''A'', lName = CNAME c\<rparr>
           (world s1) = (Inr (records, r), w)"
    and "Count r \<noteq> 0"
  shows "filter isCreate (run_events s (snd (main X dataPath s))) = []
       \<and> filter isWrite (run_events s (snd (main X dataPath s))) = []
       \<and> fst (fst (main X dataPath s)) =
           Abort (Fatal ''Error veryifying dns state: record already exists'')"
  using main_conflict [OF assms] by (simp add: run_events_def)

theorem unmanaged_conflict_aborts_witness:
  "setup_fn conflict_outside ''.'' start =
     (Return (Inr (client, loaded (example_file ''''))), \<lparr>world = 1, trace = [HttpGet ipURL]\<rparr>)
   \<and> CfgFile (loaded (example_file '''')) = Some (example_file '''')
   \<and> RecordID (example_file '''') = ''''
   \<and> ListDNSRecords conflict_outside client (zoneOf (example_file ''''))
        (listQuery (example_file '''')) (world \<lparr>world = 1, trace = [HttpGet ipURL]\<rparr>)
       = (Inr ([a_record], \<lparr>Count = 1\<rparr>), 2)
   \<and> Count \<lparr>Count = 1\<rparr> \<noteq> 0
   \<and> filter isCreate (run_events start (snd (main conflict_outside ''.'' start))) = []
   \<and> filter isWrite (run_events start (snd (main conflict_outside ''.'' start))) = []
   \<and> fst (fst (main conflict_outside ''.'' start)) =
       Abort (Fatal ''Error veryifying dns state: record already exists'')"
proof -
  have boot: "setup_fn conflict_outside ''.'' start =
     (Return (Inr (client, loaded (example_file ''''))), \<lparr>world = 1, trace = [HttpGet ipURL]\<rparr>)"
    unfolding conflict_outside_def by (rule scripted_setup)
  have cfg: "CfgFile (loaded (example_file '''')) = Some (example_file '''')"
    by (rule loaded_cfg)
  have list: "ListDNSRecords conflict_outside client (zoneOf (example_file ''''))
        (listQuery (example_file '''')) (world \<lparr>world = 1, trace = [HttpGet ipURL]\<rparr>)
       = (Inr ([a_record], \<lparr>Count = 1\<rparr>), 2)"
    by (simp add: conflict_outside_def scripted_list matching_def a_record_def example_file_def)
  have found: "Count \<lparr>Count = 1\<rparr> \<noteq> 0"
    by simp
  from unmanaged_conflict_aborts [OF boot cfg example_unmanaged list found]
    boot cfg example_unmanaged list found
  show ?thesis
    by blast
qed

text \<open>
  Claim C4. When the create of the A record succeeds and the create of the SRV record
  fails, the run ends in \<open>log.Fatalf\<close> with that error, the configuration the process
  holds is the one it loaded (its \<open>RecordID\<close> is still empty) and the configuration
  file is not written.
\<close>

theorem SRV_failure_leaves_local_state:
  assumes "setup_fn X dataPath s = (Return (Inr (api, config)), s1)"
    and "CfgFile config = Some c" and "RecordID c = ''''"
    and "ListDNSRecords X api (zoneOf c) (listQuery c) (world s1) = (Inr (records, r), w)"
    and "Count r = 0"
    and "CreateDNSRecord X api (zoneOf c) (aRecord c config (time_Now X w)) w = (Inr recA, w1)"
    and "CreateDNSRecord X api (zoneOf c) (srvRecord c (time_Now X w1)) w1 = (Inl err, w2)"
  shows "fst (main X dataPath s) =
           (Abort (Fatal (''Error creating records: '' @ message err)), Some config)
       \<and> filter isWrite (run_events s (snd (main X dataPath s))) = []"
  using main_SRV_fails [OF assms] by (simp add: run_events_def)

theorem SRV_failure_leaves_local_state_witness:
  "setup_fn SRV_fails_outside ''.'' start =
     (Return (Inr (client, loaded (example_file ''''))), \<lparr>world = 1, trace = [HttpGet ipURL]\<rparr>)
   \<and> CfgFile (loaded (example_file '''')) = Some (example_file '''')
   \<and> RecordID (example_file '''') = ''''
   \<and> ListDNSRecords SRV_fails_outside client (zoneOf (example_file ''''))
        (listQuery (example_file '''')) (world \<lparr>world = 1, trace = [HttpGet ipURL]\<rparr>)
       = (Inr ([], \<lparr>Count = 0\<rparr>), 2)
   \<and> Count \<lparr>Count = 0\<rparr> = 0
   \<and> CreateDNSRecord SRV_fails_outside client (zoneOf (example_file ''''))
        (aRecord (example_file '''') (loaded (example_file '''')) (time_Now SRV_fails_outside 2)) 2
       = (Inr a_record, 3)
   \<and> CreateDNSRecord SRV_fails_outside client (zoneOf (example_file ''''))
        (srvRecord (example_file '''') (time_Now SRV_fails_outside 3)) 3
       = (Inl (Error ''quota exceeded''), 4)
   \<and> fst (main SRV_fails_outside ''.'' start) =
       (Abort (Fatal ''Error creating records: quota exceeded''), Some (loaded (example_file '''')))
   \<and> filter isWrite (run_events start (snd (main SRV_fails_outside ''.'' start))) = []"
proof -
  have boot: "setup_fn SRV_fails_outside ''.'' start =
     (Return (Inr (client, loaded (example_file ''''))), \<lparr>world = 1, trace = [HttpGet ipURL]\<rparr>)"
    unfolding SRV_fails_outside_def by (rule scripted_setup)
  have cfg: "CfgFile (loaded (example_file '''')) = Some (example_file '''')"
    by (rule loaded_cfg)
  have list: "ListDNSRecords SRV_fails_outside client (zoneOf (example_file ''''))
        (listQuery (example_file '''')) (world \<lparr>world = 1, trace = [HttpGet ipURL]\<rparr>)
       = (Inr ([], \<lparr>Count = 0\<rparr>), 2)"
    by (simp add: SRV_fails_outside_def scripted_list matching_def)
  have none: "Count \<lparr>Count = 0\<rparr> = 0"
    by simp
  have A: "CreateDNSRecord SRV_fails_outside client (zoneOf (example_file ''''))
        (aRecord (example_file '''') (loaded (example_file '''')) (time_Now SRV_fails_outside 2)) 2
       = (Inr a_record, 3)"
    by (simp add: SRV_fails_outside_def scripted_create_A)
  have SRV: "CreateDNSRecord SRV_fails_outside client (zoneOf (example_file ''''))
        (srvRecord (example_file '''') (time_Now SRV_fails_outside 3)) 3
       = (Inl (Error ''quota exceeded''), 4)"
    by (simp add: SRV_fails_outside_def scripted_create_SRV)
  from SRV_failure_leaves_local_state [OF boot cfg example_unmanaged list none A SRV]
  have "fst (main SRV_fails_outside ''.'' start) =
          (Abort (Fatal ''Error creating records: quota exceeded''), Some (loaded (example_file '''')))
      \<and> filter isWrite (run_events start (snd (main SRV_fails_outside ''.'' start))) = []"
    by simp
  with boot cfg example_unmanaged list none A SRV show ?thesis
    by blast
qed



subsection \<open>The two states of a run\<close>

text \<open>
  Claim C6. A run that loads a non-empty \<open>RecordID\<close> ends with the configuration it
  loaded (nothing resets the identifier) and issues no create call; a run that loads an
  empty \<open>RecordID\<close> issues no update call.
\<close>

theorem managed_and_unmanaged_exclusive:
  assumes "setup_fn X dataPath s = (Return (Inr (api, config)), s1)"
    and "CfgFile config = Some c"
  shows "(RecordID c \<noteq> '''' \<longrightarrow>
            snd (fst (main X dataPath s)) = Some config
          \<and> filter isCreate (run_events s (snd (main X dataPath s))) = [])
       \<and> (RecordID c = '''' \<longrightarrow>
            filter isUpdate (run_events s (snd (main X dataPath s))) = [])"
proof (cases "RecordID c = ''''")
  case False
  obtain ru w where U:
    "UpdateDNSRecord X api (zoneOf c) (updateParams c config) (world s1) = (ru, w)"
    by fastforce
  from main_managed [OF assms False U] False show ?thesis
    by (cases ru) (simp_all add: run_events_def)
next
  case True
  obtain rl w where L: "ListDNSRecords X api (zoneOf c) (listQuery c) (world s1) = (rl, w)"
    by fastforce
  have "filter isUpdate (run_events s (snd (main X dataPath s))) = []"
  proof (cases rl)
    case (Inl err)
    from main_list_fails [OF assms True L [unfolded Inl]] show ?thesis
      by (simp add: run_events_def)
  next
    case (Inr found)
    obtain records r where found: "found = (records, r)"
      by (cases found)
    note L' = L [unfolded Inr found]
    show ?thesis
    proof (cases "Count r = 0")
      case False
      from main_conflict [OF assms True L' False] show ?thesis
        by (simp add: run_events_def)
    next
      case none: True
      obtain ra w1 where A:
        "CreateDNSRecord X api (zoneOf c) (aRecord c config (time_Now X w)) w = (ra, w1)"
        by fastforce
      show ?thesis
      proof (cases ra)
        case (Inl err)
        from main_A_fails [OF assms True L' none A [unfolded Inl]] show ?thesis
          by (simp add: run_events_def)
      next
        case recA: (Inr recA)
        obtain rs w2 where SRV:
          "CreateDNSRecord X api (zoneOf c) (srvRecord c (time_Now X w1)) w1 = (rs, w2)"
          by fastforce
        show ?thesis
        proof (cases rs)
          case (Inl err)
          from main_SRV_fails [OF assms True L' none A [unfolded recA] SRV [unfolded Inl]]
          show ?thesis
            by (simp add: run_events_def)
        next
          case recS: (Inr recS)
          obtain rw w3 where W:
            "os_WriteFile X (dataPath @ ''/config.json'') (document (c\<lparr>RecordID := ID recA\<rparr>))
               384 w2 = (rw, w3)"
            by fastforce
          from main_created [OF assms True L' none A [unfolded recA] SRV [unfolded recS] W]
          show ?thesis
            by (cases rw) (simp_all add: run_events_def)
        qed
      qed
    qed
  qed
  with True show ?thesis
    by simp
qed

theorem managed_and_unmanaged_exclusive_witness:
  "setup_fn managed_outside ''.'' start =
     (Return (Inr (client, loaded (example_file ''rec123''))),
      \<lparr>world = 1, trace = [HttpGet ipURL]\<rparr>)
   \<and> CfgFile (loaded (example_file ''rec123'')) = Some (example_file ''rec123'')
   \<and> RecordID (example_file ''rec123'') \<noteq> ''''
   \<and> snd (fst (main managed_outside ''.'' start)) = Some (loaded (example_file ''rec123''))
   \<and> filter isCreate (run_events start (snd (main managed_outside ''.'' start))) = []
   \<and> setup_fn first_run_outside ''.'' start =
       (Return (Inr (client, loaded (example_file ''''))), \<lparr>world = 1, trace = [HttpGet ipURL]\<rparr>)
   \<and> CfgFile (loaded (example_file '''')) = Some (example_file '''')
   \<and> RecordID (example_file '''') = ''''
   \<and> filter isUpdate (run_events start (snd (main first_run_outside ''.'' start))) = []"
proof -
  have cfgM: "CfgFile (loaded (example_file ''rec123'')) = Some (example_file ''rec123'')"
    by (rule loaded_cfg)
  have cfgU: "CfgFile (loaded (example_file '''')) = Some (example_file '''')"
    by (rule loaded_cfg)
  from managed_and_unmanaged_exclusive [OF managed_setup cfgM] example_managed
  have M: "snd (fst (main managed_outside ''.'' start)) = Some (loaded (example_file ''rec123''))
      \<and> filter isCreate (run_events start (snd (main managed_outside ''.'' start))) = []"
    by blast
  from managed_and_unmanaged_exclusive [OF first_run_setup cfgU] example_unmanaged
  have U: "filter isUpdate (run_events start (snd (main first_run_outside ''.'' start))) = []"
    by blast
  from M U managed_setup cfgM example_managed first_run_setup cfgU example_unmanaged
  show ?thesis
    by blast
qed

subsection \<open>The first run of home.example.com\<close>

text \<open>
  Claim C7 says that in this scenario the file is rewritten with \<open>record_id\<close> equal to
  the identifier the A create returned. That holds for the identifiers that are valid
  UTF-8 and fails for the others: when the A create returns the identifier \<open>a\<close>, byte
  FF, \<open>1\<close>, the process holds that identifier and the file has \<open>a\<close>, U+FFFD,
  \<open>1\<close>.
\<close>

theorem first_run_scenario_counterexample:
  "setup_fn odd_id_outside ''.'' start =
     (Return (Inr (client, loaded (example_file ''''))), \<lparr>world = 1, trace = [HttpGet ipURL]\<rparr>)
   \<and> example_file '''' =
       \<lparr>Domain' = ''example.com'', CNAME = ''home'', ZoneID = ''z1'', RecordID = ''''\<rparr>
   \<and> SysIP (Env (loaded (example_file ''''))) = ''203.0.113.7''
   \<and> ListDNSRecords odd_id_outside client (zoneOf (example_file ''''))
        (listQuery (example_file '''')) 1 = (Inr ([], \<lparr>Count = 0\<rparr>), 2)
   \<and> CreateDNSRecord odd_id_outside client (zoneOf (example_file ''''))
        (aRecord (example_file '''') (loaded (example_file '''')) (time_Now odd_id_outside 2)) 2
       = (Inr odd_record, 3)
   \<and> CreateDNSRecord odd_id_outside client (zoneOf (example_file ''''))
        (srvRecord (example_file '''') (time_Now odd_id_outside 3)) 3
       = (Inr srv_record, 4)
   \<and> ID odd_record = [CHR ''a'', CHR 0xFF, CHR ''1'']
   \<and> filter isWrite (run_events start (snd (main odd_id_outside ''.'' start))) =
       [WriteFileCall ''./config.json''
          (JObject [(''domain'', JString ''example.com''), (''cname'', JString ''home''),
                    (''zone_id'', JString ''z1''),
                    (''record_id'', JString [CHR ''a'', CHR 0xEF, CHR 0xBF, CHR 0xBD, CHR ''1''])])
          384]
   \<and> filter isWrite (run_events start (snd (main odd_id_outside ''.'' start))) \<noteq>
       [WriteFileCall ''./config.json''
          (JObject [(''domain'', JString ''example.com''), (''cname'', JString ''home''),
                    (''zone_id'', JString ''z1''), (''record_id'', JString (ID odd_record))])
          384]"
proof -
  have boot: "setup_fn odd_id_outside ''.'' start =
     (Return (Inr (client, loaded (example_file ''''))), \<lparr>world = 1, trace = [HttpGet ipURL]\<rparr>)"
    unfolding odd_id_outside_def by (rule scripted_setup)
  have scenario: "example_file '''' =
       \<lparr>Domain' = ''example.com'', CNAME = ''home'', ZoneID = ''z1'', RecordID = ''''\<rparr>"
    by (simp add: example_file_def)
  have ip: "SysIP (Env (loaded (example_file ''''))) = ''203.0.113.7''"
    by (simp add: loaded_def)
  have list: "ListDNSRecords odd_id_outside client (zoneOf (example_file ''''))
        (listQuery (example_file '''')) 1 = (Inr ([], \<lparr>Count = 0\<rparr>), 2)"
    by (simp add: odd_id_outside_def scripted_list matching_def)
  have list': "ListDNSRecords odd_id_outside client (zoneOf (example_file ''''))
        (listQuery (example_file '''')) (world \<lparr>world = 1, trace = [HttpGet ipURL]\<rparr>)
       = (Inr ([], \<lparr>Count = 0\<rparr>), 2)"
    using list by simp
  have none: "Count \<lparr>Count = 0\<rparr> = 0"
    by simp
  have A: "CreateDNSRecord odd_id_outside client (zoneOf (example_file ''''))
        (aRecord (example_file '''') (loaded (example_file '''')) (time_Now odd_id_outside 2)) 2
       = (Inr odd_record, 3)"
    by (simp add: odd_id_outside_def scripted_create_A)
  have SRV: "CreateDNSRecord odd_id_outside client (zoneOf (example_file ''''))
        (srvRecord (example_file '''') (time_Now odd_id_outside 3)) 3
       = (Inr srv_record, 4)"
    by (simp add: odd_id_outside_def scripted_create_SRV)
  have odd: "ID odd_record = [CHR ''a'', CHR 0xFF, CHR ''1'']"
    by (simp add: odd_record_def)
  have W: "os_WriteFile odd_id_outside (''.'' @ ''/config.json'')
             (document ((example_file '''')\<lparr>RecordID := ID odd_record\<rparr>)) 384 4 = (None, 5)"
    by (simp add: odd_id_outside_def scripted_write)
  from main_created [OF boot loaded_cfg example_unmanaged list' none A SRV W]
  have written: "filter isWrite (run_events start (snd (main odd_id_outside ''.'' start))) =
       [WriteFileCall ''./config.json''
          (JObject [(''domain'', JString ''example.com''), (''cname'', JString ''home''),
                    (''zone_id'', JString ''z1''),
                    (''record_id'', JString [CHR ''a'', CHR 0xEF, CHR 0xBF, CHR 0xBD, CHR ''1''])])
          384]"
    by (simp add: run_events_def example_file_def odd coerce_utf8_examples coerce_utf8_odd
        del: coerce_utf8.simps)
  have differ: "filter isWrite (run_events start (snd (main odd_id_outside ''.'' start))) \<noteq>
       [WriteFileCall ''./config.json''
          (JObject [(''domain'', JString ''example.com''), (''cname'', JString ''home''),
                    (''zone_id'', JString ''z1''), (''record_id'', JString (ID odd_record))])
          384]"
    unfolding written odd by simp
  from boot scenario ip list A SRV odd written differ show ?thesis
    by blast
qed

text \<open>
  Claim C7, amended. For the configuration \<open>example.com\<close>, \<open>home\<close>, \<open>z1\<close> with an
  empty \<open>RecordID\<close>, the address \<open>203.0.113.7\<close>, no match and two creates that
  succeed: the A create carries the name \<open>home\<close>, the content \<open>203.0.113.7\<close>, TTL 300
  and proxied false; the SRV create carries the target \<open>home.example.com\<close>, port 25565,
  priority 0, weight 5 and TTL 900; the configuration file is written with, as
  \<open>record_id\<close>, the identifier the A create returned coerced to valid UTF-8 (every byte
  at which no valid encoding starts replaced by U+FFFD), which is the identifier itself
  when all its bytes are ASCII.
\<close>

theorem first_run_scenario:
  assumes "c = \<lparr>Domain' = ''example.com'', CNAME = ''home'', ZoneID = ''z1'', RecordID = ''''\<rparr>"
    and "setup_fn X dataPath s = (Return (Inr (api, config)), s1)"
    and "CfgFile config = Some c" and "SysIP (Env config) = ''203.0.113.7''"
    and "ListDNSRecords X api (zoneOf c) (listQuery c) (world s1) = (Inr (records, r), w)"
    and "Count r = 0"
    and "CreateDNSRecord X api (zoneOf c) (aRecord c config (time_Now X w)) w = (Inr recA, w1)"
    and "CreateDNSRecord X api (zoneOf c) (srvRecord c (time_Now X w1)) w1 = (Inr recS, w2)"
  shows "filter isCreate (run_events s (snd (main X dataPath s))) =
           [CreateCall api (ZoneIdentifier ''z1'')
              \<lparr>cType = ''A'', cName = ''home'', cContent = ''203.0.113.7'', cData = None,
               cTTL = 300, cProxied = Some False,
               cComment = ''Automatically set by gddns at '' @ time_Now X w\<rparr>,
            CreateCall api (ZoneIdentifier ''z1'')
              \<lparr>cType = ''SRV'', cName = ''home'', cContent = '''',
               cData = Some [''service'' \<mapsto> S ''_minecraft'', ''proto'' \<mapsto> S ''_tcp'',
                             ''name'' \<mapsto> S ''home.example.com'', ''priority'' \<mapsto> I 0,
                             ''weight'' \<mapsto> I 5, ''port'' \<mapsto> I 25565,
                             ''target'' \<mapsto> S ''home.example.com''],
               cTTL = 900, cProxied = Some False,
               cComment = ''Automatically set by gddns at '' @ time_Now X w1\<rparr>]
       \<and> filter isWrite (run_events s (snd (main X dataPath s))) =
           [WriteFileCall (dataPath @ ''/config.json'')
              (JObject [(''domain'', JString ''example.com''), (''cname'', JString ''home''),
                        (''zone_id'', JString ''z1''),
                        (''record_id'', JString (coerce_utf8 (ID recA)))])
              384]
       \<and> ((\<forall>b \<in> set (ID recA). (of_char b :: nat) < 0x80) \<longrightarrow>
            coerce_utf8 (ID recA) = ID recA)"
proof -
  have unmanaged: "RecordID c = ''''"
    using assms(1) by simp
  obtain rw w3 where W:
    "os_WriteFile X (dataPath @ ''/config.json'') (document (c\<lparr>RecordID := ID recA\<rparr>))
       384 w2 = (rw, w3)"
    by fastforce
  from main_created [OF assms(2,3) unmanaged assms(5-8) W] assms(1,4) show ?thesis
    by (cases rw)
      (simp_all add: run_events_def coerce_utf8_examples coerce_utf8_ascii
        del: coerce_utf8.simps)
qed

theorem first_run_scenario_witness:
  "example_file '''' =
     \<lparr>Domain' = ''example.com'', CNAME = ''home'', ZoneID = ''z1'', RecordID = ''''\<rparr>
   \<and> setup_fn first_run_outside ''.'' start =
       (Return (Inr (client, loaded (example_file ''''))), \<lparr>world = 1, trace = [HttpGet ipURL]\<rparr>)
   \<and> CfgFile (loaded (example_file '''')) = Some (example_file '''')
   \<and> SysIP (Env (loaded (example_file ''''))) = ''203.0.113.7''
   \<and> ListDNSRecords first_run_outside client (zoneOf (example_file ''''))
        (listQuery (example_file '''')) (world \<lparr>world = 1, trace = [HttpGet ipURL]\<rparr>)
       = (Inr ([], \<lparr>Count = 0\<rparr>), 2)
   \<and> Count \<lparr>Count = 0\<rparr> = 0
   \<and> CreateDNSRecord first_run_outside client (zoneOf (example_file ''''))
        (aRecord (example_file '''') (loaded (example_file '''')) (time_Now first_run_outside 2)) 2
       = (Inr a_record, 3)
   \<and> CreateDNSRecord first_run_outside client (zoneOf (example_file ''''))
        (srvRecord (example_file '''') (time_Now first_run_outside 3)) 3
       = (Inr srv_record, 4)
   \<and> filter isCreate (run_events start (snd (main first_run_outside ''.'' start))) =
       [CreateCall client (ZoneIdentifier ''z1'')
          \<lparr>cType = ''A'', cName = ''home'', cContent = ''203.0.113.7'', cData = None,
           cTTL = 300, cProxied = Some False,
           cComment = ''Automatically set by gddns at tick ii''\<rparr>,
        CreateCall client (ZoneIdentifier ''z1'')
          \<lparr>cType = ''SRV'', cName = ''home'', cContent = '''',
           cData = Some [''service'' \<mapsto> S ''_minecraft'', ''proto'' \<mapsto> S ''_tcp'',
                         ''name'' \<mapsto> S ''home.example.com'', ''priority'' \<mapsto> I 0,
                         ''weight'' \<mapsto> I 5, ''port'' \<mapsto> I 25565,
                         ''target'' \<mapsto> S ''home.example.com''],
           cTTL = 900, cProxied = Some False,
           cComment = ''Automatically set by gddns at tick iii''\<rparr>]
   \<and> filter isWrite (run_events start (snd (main first_run_outside ''.'' start))) =
       [WriteFileCall ''./config.json''
          (JObject [(''domain'', JString ''example.com''), (''cname'', JString ''home''),
                    (''zone_id'', JString ''z1''), (''record_id'', JString ''a1'')])
          384]
   \<and> ID a_record = ''a1''"
proof -
  have scenario: "example_file '''' =
     \<lparr>Domain' = ''example.com'', CNAME = ''home'', ZoneID = ''z1'', RecordID = ''''\<rparr>"
    by (simp add: example_file_def)
  have cfg: "CfgFile (loaded (example_file '''')) = Some (example_file '''')"
    by (rule loaded_cfg)
  have ip: "SysIP (Env (loaded (example_file ''''))) = ''203.0.113.7''"
    by (simp add: loaded_def)
  have none: "Count \<lparr>Count = 0\<rparr> = 0"
    by simp
  from first_run_scenario
    [OF scenario first_run_setup cfg ip first_run_list none first_run_A first_run_SRV]
  have "filter isCreate (run_events start (snd (main first_run_outside ''.'' start))) =
       [CreateCall client (ZoneIdentifier ''z1'')
          \<lparr>cType = ''A'', cName = ''home'', cContent = ''203.0.113.7'', cData = None,
           cTTL = 300, cProxied = Some False,
           cComment = ''Automatically set by gddns at tick ii''\<rparr>,
        CreateCall client (ZoneIdentifier ''z1'')
          \<lparr>cType = ''SRV'', cName = ''home'', cContent = '''',
           cData = Some [''service'' \<mapsto> S ''_minecraft'', ''proto'' \<mapsto> S ''_tcp'',
                         ''name'' \<mapsto> S ''home.example.com'', ''priority'' \<mapsto> I 0,
                         ''weight'' \<mapsto> I 5, ''port'' \<mapsto> I 25565,
                         ''target'' \<mapsto> S ''home.example.com''],
           cTTL = 900, cProxied = Some False,
           cComment = ''Automatically set by gddns at tick iii''\<rparr>]
   \<and> filter isWrite (run_events start (snd (main first_run_outside ''.'' start))) =
       [WriteFileCall ''./config.json''
          (JObject [(''domain'', JString ''example.com''), (''cname'', JString ''home''),
                    (''zone_id'', JString ''z1''), (''record_id'', JString ''a1'')])
          384]"
    by (simp add: first_run_outside_def scripted_now a_record_def loaded_def
        numeral_2_eq_2 numeral_3_eq_3 coerce_utf8_examples del: coerce_utf8.simps)
  moreover have "ID a_record = ''a1''"
    by (simp add: a_record_def)
  ultimately show ?thesis
    using scenario first_run_setup cfg ip first_run_list none first_run_A first_run_SRV
    by blast
qed

subsection \<open>What is persisted\<close>

text \<open>
  Claim C8. \<open>saveConfig\<close> does not depend on the \<open>Env\<close> part of the configuration
  (the two credentials and the address): with any other \<open>Env\<close> it returns the same
  result and leaves the same trace. What it writes, when it writes, is the document of
  the four fields of the \<open>CfgFile\<close>, each as \<open>encoding/json\<close> encodes a string.
\<close>

theorem saveConfig_writes_CfgFile_only:
  "saveConfig X dataPath (config\<lparr>Env := e\<rparr>) s = saveConfig X dataPath config s
   \<and> filter isWrite (run_events s (snd (saveConfig X dataPath config s))) =
       (case CfgFile config of
          None \<Rightarrow> []
        | Some c \<Rightarrow>
            [WriteFileCall (dataPath @ ''/config.json'')
               (JObject [(''domain'', JString (coerce_utf8 (Domain' c))),
                         (''cname'', JString (coerce_utf8 (CNAME c))),
                         (''zone_id'', JString (coerce_utf8 (ZoneID c))),
                         (''record_id'', JString (coerce_utf8 (RecordID c)))])
               384])"
  by (simp add: saveConfig_def MarshalIndent_def Let_def run_events_def
      split: option.splits prod.splits)

theorem saveConfig_writes_CfgFile_only_witness:
  "saveConfig first_run_outside ''.''
     (loaded (example_file ''a1'')
        \<lparr>Env := \<lparr>CFEmail = ''other@example.com'', CFApiKey = ''0th3r'', SysIP = ''198.51.100.2''\<rparr>\<rparr>)
     start
    = saveConfig first_run_outside ''.'' (loaded (example_file ''a1'')) start
   \<and> filter isWrite (run_events start
        (snd (saveConfig first_run_outside ''.'' (loaded (example_file ''a1'')) start))) =
       [WriteFileCall ''./config.json''
          (JObject [(''domain'', JString ''example.com''), (''cname'', JString ''home''),
                    (''zone_id'', JString ''z1''), (''record_id'', JString ''a1'')])
          384]"
  using saveConfig_writes_CfgFile_only
    [where X = first_run_outside and dataPath = "''.''" and s = start
       and config = "loaded (example_file ''a1'')"
       and e = "\<lparr>CFEmail = ''other@example.com'', CFApiKey = ''0th3r'', SysIP = ''198.51.100.2''\<rparr>"]
  by (simp add: loaded_def example_file_def coerce_utf8_examples del: coerce_utf8.simps)

subsection \<open>The conflict check\<close>

text \<open>
  Claim C9. The one list call of a first run asks for the records of type \<open>A\<close> with the
  configured name. When the provider answers it with the records of its zone \<open>recs\<close>
  that have the type and the name asked for, and no record of that name in \<open>recs\<close> is
  an A record (records of other types may have the name), \<open>findRecord\<close> reports no
  conflict and the run goes on to issue the create of the A record.
\<close>

theorem conflict_check_asks_for_A_records_only:
  assumes "setup_fn X dataPath s = (Return (Inr (api, config)), s1)"
    and "CfgFile config = Some c" and "RecordID c = ''''"
    and "fst (ListDNSRecords X api (ZoneIdentifier (ZoneID c))
                \<lparr>lType = ''A'', lName = CNAME c\<rparr> (world s1)) =
           Inr (matching recs \<lparr>lType = ''A'', lName = CNAME c\<rparr>,
                \<lparr>Count = int (length (matching recs \<lparr>lType = ''A'', lName = CNAME c\<rparr>))\<rparr>)"
    and "\<forall>rec \<in> set recs. Name rec = CNAME c \<longrightarrow> Type rec \<noteq> ''A''"
  shows "filter isList (run_events s (snd (main X dataPath s))) =
           [ListCall api (ZoneIdentifier (ZoneID c)) \<lparr>lType = ''A'', lName = CNAME c\<rparr>]
       \<and> fst (findRecord X api config s1) = Return None
       \<and> CreateCall api (ZoneIdentifier (ZoneID c))
            \<lparr>cType = ''A'', cName = CNAME c, cContent = SysIP (Env config), cData = None,
             cTTL = 300, cProxied = Some False,
             cComment = ''Automatically set by gddns at ''
               @ time_Now X (snd (ListDNSRecords X api (ZoneIdentifier (ZoneID c))
                                    \<lparr>lType = ''A'', lName = CNAME c\<rparr> (world s1)))\<rparr>
           \<in> set (run_events s (snd (main X dataPath s)))"
proof -
  have none: "matching recs (listQuery c) = []"
    using assms(5) by (auto simp: matching_def filter_empty_conv)
  obtain w where L:
    "ListDNSRecords X api (zoneOf c) (listQuery c) (world s1) = (Inr ([], \<lparr>Count = 0\<rparr>), w)"
    using assms(4) unfolding none by (cases "ListDNSRecords X api (zoneOf c) (listQuery c) (world s1)") simp
  have zero: "Count \<lparr>Count = 0\<rparr> = 0"
    by simp
  from main_no_conflict_events [OF assms(1-3) L zero]
  obtain rest where run: "run_events s (snd (main X dataPath s)) =
      trace_to_create api c @ CreateCall api (zoneOf c) (aRecord c config (time_Now X w)) # rest"
    and rest: "filter isList rest = []"
    by blast
  have "fst (findRecord X api config s1) = Return None"
    using findRecord_answer [OF assms(2) L] by simp
  with run rest L show ?thesis
    by simp
qed

theorem conflict_check_asks_for_A_records_only_witness:
  "setup_fn SRV_exists_outside ''.'' start =
     (Return (Inr (client, loaded (example_file ''''))), \<lparr>world = 1, trace = [HttpGet ipURL]\<rparr>)
   \<and> CfgFile (loaded (example_file '''')) = Some (example_file '''')
   \<and> RecordID (example_file '''') = ''''
   \<and> fst (ListDNSRecords SRV_exists_outside client (zoneOf (example_file ''''))
             (listQuery (example_file '''')) (world \<lparr>world = 1, trace = [HttpGet ipURL]\<rparr>)) =
       Inr (matching [srv_record] (listQuery (example_file '''')),
            \<lparr>Count = int (length (matching [srv_record] (listQuery (example_file ''''))))\<rparr>)
   \<and> Name srv_record = CNAME (example_file '''')
   \<and> Type srv_record = ''SRV''
   \<and> filter isList (run_events start (snd (main SRV_exists_outside ''.'' start))) =
       [ListCall client (ZoneIdentifier ''z1'') \<lparr>lType = ''A'', lName = ''home''\<rparr>]
   \<and> fst (findRecord SRV_exists_outside client (loaded (example_file ''''))
             \<lparr>world = 1, trace = [HttpGet ipURL]\<rparr>) = Return None
   \<and> CreateCall client (ZoneIdentifier ''z1'')
        \<lparr>cType = ''A'', cName = ''home'', cContent = ''203.0.113.7'', cData = None,
         cTTL = 300, cProxied = Some False,
         cComment = ''Automatically set by gddns at tick ii''\<rparr>
       \<in> set (run_events start (snd (main SRV_exists_outside ''.'' start)))"
proof -
  have boot: "setup_fn SRV_exists_outside ''.'' start =
     (Return (Inr (client, loaded (example_file ''''))), \<lparr>world = 1, trace = [HttpGet ipURL]\<rparr>)"
    unfolding SRV_exists_outside_def by (rule scripted_setup)
  have cfg: "CfgFile (loaded (example_file '''')) = Some (example_file '''')"
    by (rule loaded_cfg)
  have answer: "fst (ListDNSRecords SRV_exists_outside client (zoneOf (example_file ''''))
             (listQuery (example_file '''')) (world \<lparr>world = 1, trace = [HttpGet ipURL]\<rparr>)) =
       Inr (matching [srv_record] (listQuery (example_file '''')),
            \<lparr>Count = int (length (matching [srv_record] (listQuery (example_file ''''))))\<rparr>)"
    by (simp add: SRV_exists_outside_def scripted_list)
  have noA: "\<forall>rec \<in> set [srv_record]. Name rec = CNAME (example_file '''') \<longrightarrow> Type rec \<noteq> ''A''"
    by (simp add: srv_record_def)
  have same_name: "Name srv_record = CNAME (example_file '''')"
    by (simp add: srv_record_def example_file_def)
  have other_type: "Type srv_record = ''SRV''"
    by (simp add: srv_record_def)
  from conflict_check_asks_for_A_records_only [OF boot cfg example_unmanaged answer noA]
  have "filter isList (run_events start (snd (main SRV_exists_outside ''.'' start))) =
       [ListCall client (ZoneIdentifier ''z1'') \<lparr>lType = ''A'', lName = ''home''\<rparr>]
   \<and> fst (findRecord SRV_exists_outside client (loaded (example_file ''''))
             \<lparr>world = 1, trace = [HttpGet ipURL]\<rparr>) = Return None
   \<and> CreateCall client (ZoneIdentifier ''z1'')
        \<lparr>cType = ''A'', cName = ''home'', cContent = ''203.0.113.7'', cData = None,
         cTTL = 300, cProxied = Some False,
         cComment = ''Automatically set by gddns at tick ii''\<rparr>
       \<in> set (run_events start (snd (main SRV_exists_outside ''.'' start)))"
    by (simp add: SRV_exists_outside_def scripted_list scripted_now example_file_def loaded_def
        numeral_2_eq_2)
  with boot cfg example_unmanaged answer same_name other_type show ?thesis
    by blast
qed

subsection \<open>The IP resolver\<close>

text \<open>
  When the body of the response ends with an error, \<open>getPublicIP\<close> returns the bytes
  read so far and that error, which \<open>loadConfigAndEnv\<close> turns into a fatal one.
\<close>

lemma getPublicIP_read_error:
  assumes "http_Get X ipURL (world s) = (Inr resp, w)"
    and "Body resp = Reader bytes (Some err)"
  shows "fst (getPublicIP X s) = (bytes, Some err)"
  using assms by (simp add: getPublicIP_def)

text \<open>
  Claim C10. \<open>getPublicIP\<close> returns the body of the response as the address, with no
  error, whenever the request and the reading of the body have no transport error
  (\<open>http.Get\<close> returns a response and its body is read to the end of the data),
  whatever the status code \<open>code\<close> of the response is.
\<close>

theorem getPublicIP_ignores_status:
  assumes "http_Get X ''https://api.ipify.org?format=text'' (world s) =
             (Inr \<lparr>StatusCode = code, Body = Reader body None\<rparr>, w)"
  shows "fst (getPublicIP X s) = (body, None)"
  using assms by (simp add: getPublicIP_def)

theorem getPublicIP_ignores_status_witness:
  "http_Get (scripted (decoded (example_file '''')) 503 [] None (Inr a_record) (Inr srv_record) None)
      ''https://api.ipify.org?format=text'' (world start)
     = (Inr \<lparr>StatusCode = 503, Body = Reader ''203.0.113.7'' None\<rparr>, 1)
   \<and> fst (getPublicIP
        (scripted (decoded (example_file '''')) 503 [] None (Inr a_record) (Inr srv_record) None)
        start) = (''203.0.113.7'', None)"
proof -
  let ?X = "scripted (decoded (example_file '''')) 503 [] None (Inr a_record) (Inr srv_record) None"
  have get: "http_Get ?X ''https://api.ipify.org?format=text'' (world start) =
               (Inr \<lparr>StatusCode = 503, Body = Reader ''203.0.113.7'' None\<rparr>, 1)"
    by (simp add: scripted_def start_def)
  from getPublicIP_ignores_status [OF get] get show ?thesis
    by blast
qed

end
